theory Spec2Isabelle
  imports Main "HOL-Library.AList" "HOL-Library.Sublist"
begin

section \<open>JavaScript values and errors\<close>

text \<open>
  Strings are lists of 8-bit characters, read as the code units U+0000 to U+00FF.

  A property read on the registry object yields \<open>undefined\<close>, a string stored by the
  program, or a value inherited from \<open>Object.prototype\<close> (a function, or the prototype
  object itself for the accessor \<open>__proto__\<close>); \<open>Inherited k\<close> stands for the value of
  \<open>Object.prototype[k]\<close>.
\<close>

datatype js_value = Undefined | Str string | Inherited string

text \<open>
  Thrown values. \<open>Error\<close> is \<open>new Error(message)\<close> as the program throws it;
  \<open>NodeError code message\<close> is an error of the Node runtime that carries a \<open>code\<close>
  (a failed system call, an argument of the wrong type); \<open>TypeError\<close> and
  \<open>SyntaxError\<close> are raised by the language itself and carry no \<open>code\<close>. The texts
  of errors raised by the runtime are engine-specific and stand for themselves here.
\<close>

datatype js_error =
    Error string
  | TypeError string
  | SyntaxError string
  | RangeError string
  | NodeError string string

fun error_message :: "js_error \<Rightarrow> string" where
  "error_message (Error m) = m"
| "error_message (TypeError m) = m"
| "error_message (SyntaxError m) = m"
| "error_message (RangeError m) = m"
| "error_message (NodeError c m) = m"

fun error_code :: "js_error \<Rightarrow> string option" where
  "error_code (NodeError c m) = Some c"
| "error_code e = None"

fun truthy :: "js_value \<Rightarrow> bool" where
  "truthy Undefined = False"
| "truthy (Str s) = (s \<noteq> [])"
| "truthy (Inherited k) = True"

text \<open>\<open>Array.prototype.join\<close> on strings.\<close>

fun join :: "string \<Rightarrow> string list \<Rightarrow> string" where
  "join sep [] = []"
| "join sep [x] = x"
| "join sep (x # y # ys) = x @ sep @ join sep (y # ys)"

section \<open>The registry: a plain object used as a name-to-path table\<close>

text \<open>
  \<open>const projects = {}\<close> is an ordinary object whose prototype is \<open>Object.prototype\<close>.
  Its own properties are kept as an association list in insertion order.
\<close>

type_synonym registry = "(string \<times> string) list"

definition object_prototype_keys :: "string list" where
  "object_prototype_keys =
     [''constructor'', ''__defineGetter__'', ''__defineSetter__'', ''hasOwnProperty'',
      ''__lookupGetter__'', ''__lookupSetter__'', ''isPrototypeOf'',
      ''propertyIsEnumerable'', ''toString'', ''valueOf'', ''__proto__'',
      ''toLocaleString'']"

text \<open>\<open>projects[k]\<close>: the own property, else the inherited one, else \<open>undefined\<close>.\<close>

definition get_prop :: "registry \<Rightarrow> string \<Rightarrow> js_value" where
  "get_prop projects k =
     (case map_of projects k of
        Some v \<Rightarrow> Str v
      | None \<Rightarrow> if k \<in> set object_prototype_keys then Inherited k else Undefined)"

text \<open>
  \<open>projects[k] = v\<close> with a string \<open>v\<close>: an own data property is created or updated in
  place, except for \<open>__proto__\<close>, whose inherited setter ignores a value that is neither
  an object nor \<open>null\<close>.
\<close>

definition set_prop :: "registry \<Rightarrow> string \<Rightarrow> string \<Rightarrow> registry" where
  "set_prop projects k v =
     (if k = ''__proto__'' then projects else AList.update k v projects)"

text \<open>\<open>delete projects[k]\<close> removes an own property and never fails.\<close>

definition delete_prop :: "registry \<Rightarrow> string \<Rightarrow> registry" where
  "delete_prop projects k = AList.delete k projects"

text \<open>
  \<open>Object.keys\<close>: the own keys that are array indices (canonical decimal numerals below
  \<open>2^32 - 1\<close>) in ascending numeric order, then the other keys in insertion order.
\<close>

definition is_digit :: "char \<Rightarrow> bool" where
  "is_digit c = (48 \<le> (of_char c :: nat) \<and> (of_char c :: nat) \<le> 57)"

definition digit_value :: "char \<Rightarrow> nat" where
  "digit_value c = of_char c - 48"

definition digits_value :: "string \<Rightarrow> nat" where
  "digits_value s = foldl (\<lambda>n c. 10 * n + digit_value c) 0 s"

definition is_array_index :: "string \<Rightarrow> bool" where
  "is_array_index s =
     (s \<noteq> [] \<and> list_all is_digit s \<and> (length s = 1 \<or> hd s \<noteq> CHR ''0'')
      \<and> digits_value s < 2 ^ 32 - 1)"

definition object_entries :: "registry \<Rightarrow> (string \<times> string) list" where
  "object_entries projects =
     sort_key (\<lambda>p. digits_value (fst p)) (filter (\<lambda>p. is_array_index (fst p)) projects)
     @ filter (\<lambda>p. \<not> is_array_index (fst p)) projects"

definition object_keys :: "registry \<Rightarrow> string list" where
  "object_keys projects = map fst (object_entries projects)"

subsection \<open>getProjectPath and removeProject (src/config/projectLoader.js)\<close>

definition unknown_project_message :: "registry \<Rightarrow> string \<Rightarrow> string" where
  "unknown_project_message projects projectName =
     (let availableProjects = object_keys projects
      in ''Unknown project: '' @ projectName @ ''. Available projects: ''
         @ (if length availableProjects > 0 then join '', '' availableProjects
            else ''none (use addProject tool first)''))"

definition getProjectPath :: "registry \<Rightarrow> string \<Rightarrow> js_error + js_value" where
  "getProjectPath projects projectName =
     (let root = get_prop projects projectName
      in if \<not> truthy root then Inl (Error (unknown_project_message projects projectName))
         else Inr root)"

definition removeProject :: "registry \<Rightarrow> string \<Rightarrow> js_error + registry" where
  "removeProject projects name =
     (if \<not> truthy (get_prop projects name)
      then Inl (Error (''Project '' @ [CHR 0x27] @ name @ [CHR 0x27] @ '' not found''))
      else Inr (delete_prop projects name))"


section \<open>The runtime and the collaborators\<close>

text \<open>
  The values that come back from the git client (simple-git). A log entry has the
  fields of its \<open>DefaultLogFields\<close>; the results of \<open>status\<close>, \<open>branch\<close>,
  \<open>getRemotes\<close> and \<open>tags\<close> are copied into the responses field by field.
\<close>

record raw_commit =
  raw_hash :: string
  raw_date :: string
  raw_message :: string
  raw_refs :: string
  raw_body :: string
  raw_author_name :: string
  raw_author_email :: string

record status_result =
  status_current :: string
  status_modified :: "string list"
  status_created :: "string list"
  status_deleted :: "string list"
  status_renamed :: "(string \<times> string) list"
  status_staged :: "string list"
  status_ahead :: int
  status_behind :: int

record branch_summary =
  branch_all :: "string list"
  branch_current :: string

record remote =
  remote_name :: string
  remote_fetch :: string
  remote_push :: string

text \<open>An options object handed to \<open>git.log\<close>: its properties in definition order (a
  key that is an array index, which JavaScript would enumerate first, stays in place).\<close>

datatype opt_value = OStr string | ONum int | ONull

type_synonym log_options = "(string \<times> opt_value) list"

text \<open>Parsed JSON. A number is kept as its \<open>ToString\<close> rendering: the loader
  observes nothing else of it (\<open>+0\<close> and \<open>-0\<close> both render as \<open>0\<close>, and JSON has no NaN).\<close>

datatype json =
    JNull
  | JBool bool
  | JNum string
  | JStr string
  | JArr "json list"
  | JObj "(string \<times> json) list"

text \<open>
  Everything the program calls and does not implement: Node's \<open>path\<close> and
  \<open>fs/promises\<close> modules, \<open>JSON.parse\<close>, \<open>Date.prototype.toISOString\<close> (on a
  valid time value in milliseconds) and the git client, whose instance is identified
  by the root it was created for. A failing call returns its error on the left.
  \<open>fs_stat\<close> answers \<open>stats.isDirectory()\<close>; \<open>fs_readdir\<close> answers each entry's
  name and \<open>isDirectory()\<close>.
\<close>

record world =
  path_basename :: "string \<Rightarrow> string"
  path_join :: "string list \<Rightarrow> string"
  path_resolve :: "string list \<Rightarrow> string"
  fs_stat :: "string \<Rightarrow> js_error + bool"
  fs_readFile :: "string \<Rightarrow> js_error + string"
  fs_readdir :: "string \<Rightarrow> js_error + (string \<times> bool) list"
  fs_access :: "string \<Rightarrow> js_error + unit"
  json_parse :: "string \<Rightarrow> string + json"
  date_toISOString :: "int \<Rightarrow> string"
  simpleGit :: "js_value \<Rightarrow> js_error + unit"
  git_checkIsRepo :: "js_value \<Rightarrow> js_error + bool"
  git_log :: "js_value \<Rightarrow> log_options \<Rightarrow> js_error + raw_commit list"
  git_raw :: "js_value \<Rightarrow> string list \<Rightarrow> js_error + string"
  git_show :: "js_value \<Rightarrow> string list \<Rightarrow> js_error + string"
  git_status :: "js_value \<Rightarrow> js_error + status_result"
  git_branch :: "js_value \<Rightarrow> js_error + branch_summary"
  git_getRemotes :: "js_value \<Rightarrow> js_error + remote list"
  git_tags :: "js_value \<Rightarrow> js_error + string list"

text \<open>
  The calls an invocation makes to the filesystem and to the git client, in order.
  An asynchronous function is modelled by the trace of these calls together with its
  outcome: the thrown error on the left or the returned value on the right.
\<close>

datatype event =
    FsStat string
  | FsReadFile string
  | FsReaddir string
  | FsAccess string
  | SimpleGit js_value
  | CheckIsRepo js_value
  | GitLog js_value log_options
  | GitRaw js_value "string list"
  | GitShow js_value "string list"
  | GitStatus js_value
  | GitBranch js_value
  | GitGetRemotes js_value
  | GitTags js_value

type_synonym 'a io = "event list \<times> (js_error + 'a)"

definition io_return :: "'a \<Rightarrow> 'a io" where
  "io_return x = ([], Inr x)"

definition io_throw :: "js_error \<Rightarrow> 'a io" where
  "io_throw e = ([], Inl e)"

definition io_pure :: "js_error + 'a \<Rightarrow> 'a io" where
  "io_pure r = ([], r)"

definition io_call :: "event \<Rightarrow> js_error + 'a \<Rightarrow> 'a io" where
  "io_call ev r = ([ev], r)"

definition io_bind :: "'a io \<Rightarrow> ('a \<Rightarrow> 'b io) \<Rightarrow> 'b io" where
  "io_bind m f =
     (case m of
        (t, Inl e) \<Rightarrow> (t, Inl e)
      | (t, Inr x) \<Rightarrow> (case f x of (t', r) \<Rightarrow> (t @ t', r)))"

text \<open>\<open>try { m } catch (error) { throw new Error(pre + error.message) }\<close>\<close>

definition io_rethrow :: "string \<Rightarrow> 'a io \<Rightarrow> 'a io" where
  "io_rethrow pre m =
     (case m of
        (t, Inl e) \<Rightarrow> (t, Inl (Error (pre @ error_message e)))
      | (t, Inr x) \<Rightarrow> (t, Inr x))"

text \<open>
  \<open>path.join\<close> and \<open>path.resolve\<close> throw a TypeError (code \<open>ERR_INVALID_ARG_TYPE\<close>)
  when an argument is not a string.
\<close>

fun the_strings :: "js_value list \<Rightarrow> string list option" where
  "the_strings [] = Some []"
| "the_strings (Str s # vs) = map_option (Cons s) (the_strings vs)"
| "the_strings (v # vs) = None"

definition invalid_arg_type :: js_error where
  "invalid_arg_type = NodeError ''ERR_INVALID_ARG_TYPE'' ''The argument must be of type string''"

definition js_path_join :: "world \<Rightarrow> js_value list \<Rightarrow> js_error + string" where
  "js_path_join w args =
     (case the_strings args of
        None \<Rightarrow> Inl invalid_arg_type
      | Some ss \<Rightarrow> Inr (path_join w ss))"

text \<open>String conversion of a registry value in a template literal; the text of an
  inherited function is engine-specific.\<close>

fun display :: "js_value \<Rightarrow> string" where
  "display Undefined = ''undefined''"
| "display (Str s) = s"
| "display (Inherited k) = ''[Object.prototype.'' @ k @ '']''"

definition quoted :: "string \<Rightarrow> string" where
  "quoted s = [CHR 0x27] @ s @ [CHR 0x27]"

subsection \<open>addProject (src/config/projectLoader.js)\<close>

definition addProject :: "world \<Rightarrow> registry \<Rightarrow> string \<Rightarrow> string \<Rightarrow> registry io" where
  "addProject w projects name projectPath =
     io_bind (io_call (FsStat projectPath) (fs_stat w projectPath)) (\<lambda>isDirectory.
       if \<not> isDirectory
       then io_throw (Error (''Path is not a directory: '' @ projectPath))
       else io_return (set_prop projects name (path_resolve w [projectPath])))"

subsection \<open>loadProjects (src/config/projectLoader.js)\<close>

fun json_truthy :: "json \<Rightarrow> bool" where
  "json_truthy JNull = False"
| "json_truthy (JBool b) = b"
| "json_truthy (JNum t) = (t \<noteq> ''0'')"
| "json_truthy (JStr s) = (s \<noteq> [])"
| "json_truthy (JArr xs) = True"
| "json_truthy (JObj ms) = True"

text \<open>
  Reading one of the properties \<open>projects\<close>, \<open>name\<close> and \<open>path\<close>, none of which a
  prototype, a string or an array defines: a TypeError on \<open>null\<close>, the member of an
  object, \<open>undefined\<close> (\<open>None\<close>) on anything else.
\<close>

fun json_member :: "json \<Rightarrow> string \<Rightarrow> js_error + json option" where
  "json_member JNull k =
     Inl (TypeError (''Cannot read properties of null (reading '' @ quoted k @ '')''))"
| "json_member (JObj ms) k = Inr (map_of (rev ms) k)"
| "json_member v k = Inr None"

text \<open>
  \<open>ToString\<close> of a parsed value, as a property key and in a template literal. An array
  joins its elements with commas, \<open>null\<close> elements rendering as the empty string; an
  object renders as \<open>[object Object]\<close> unless it has a member \<open>toString\<close>, which is not
  callable and makes the conversion throw a TypeError (\<open>None\<close>).
\<close>

fun json_to_string :: "json \<Rightarrow> string option" where
  "json_to_string JNull = Some ''null''"
| "json_to_string (JBool b) = Some (if b then ''true'' else ''false'')"
| "json_to_string (JNum t) = Some t"
| "json_to_string (JStr s) = Some s"
| "json_to_string (JArr xs) =
     map_option (join '','')
       (those (map (\<lambda>x. if x = JNull then Some [] else json_to_string x) xs))"
| "json_to_string (JObj ms) =
     (if ''toString'' \<in> fst ` set ms then None else Some ''[object Object]'')"

text \<open>Lines written with \<open>console.error\<close>.\<close>

datatype log_entry = LinkedProject string string | Warning string

text \<open>
  The body of the loop for one entry of \<open>config.projects\<close>: it throws, or skips the
  entry (\<open>None\<close>), or stores \<open>resolvedPath\<close> under the key of \<open>project.name\<close>.
\<close>

definition load_entry :: "world \<Rightarrow> string \<Rightarrow> json \<Rightarrow> js_error + (string \<times> string) option" where
  "load_entry w currentProjectPath project =
     (case json_member project ''name'' of
        Inl e \<Rightarrow> Inl e
      | Inr None \<Rightarrow> Inr None
      | Inr (Some name) \<Rightarrow>
          if \<not> json_truthy name then Inr None
          else (case json_member project ''path'' of
                  Inl e \<Rightarrow> Inl e
                | Inr None \<Rightarrow> Inr None
                | Inr (Some (JStr p)) \<Rightarrow>
                    if p = [] then Inr None
                    else (case json_to_string name of
                            None \<Rightarrow> Inl (TypeError ''Cannot convert object to primitive value'')
                          | Some k \<Rightarrow> Inr (Some (k, path_resolve w [currentProjectPath, p])))
                | Inr (Some v) \<Rightarrow>
                    if \<not> json_truthy v then Inr None else Inl invalid_arg_type))"

text \<open>The loop mutates \<open>projects\<close> in place: what it stored before an exception stays.\<close>

fun load_entries ::
  "world \<Rightarrow> string \<Rightarrow> json list \<Rightarrow> registry \<times> log_entry list
     \<Rightarrow> (registry \<times> log_entry list) \<times> js_error option" where
  "load_entries w currentProjectPath [] st = (st, None)"
| "load_entries w currentProjectPath (project # rest) (projects, log) =
     (case load_entry w currentProjectPath project of
        Inl e \<Rightarrow> ((projects, log), Some e)
      | Inr None \<Rightarrow> load_entries w currentProjectPath rest (projects, log)
      | Inr (Some (k, resolvedPath)) \<Rightarrow>
          load_entries w currentProjectPath rest
            (set_prop projects k resolvedPath, log @ [LinkedProject k resolvedPath]))"

text \<open>The \<open>try\<close> block: the registry and the log it leaves, and the error it threw, if any.\<close>

definition load_config ::
  "world \<Rightarrow> string \<Rightarrow> registry \<Rightarrow> (registry \<times> log_entry list) \<times> js_error option" where
  "load_config w currentProjectPath projects =
     (let configPath = path_join w [currentProjectPath, ''.workspace-bridge.json'']
      in case fs_readFile w configPath of
           Inl e \<Rightarrow> ((projects, []), Some e)
         | Inr configContent \<Rightarrow>
             (case json_parse w configContent of
                Inl m \<Rightarrow> ((projects, []), Some (SyntaxError m))
              | Inr config \<Rightarrow>
                  (case json_member config ''projects'' of
                     Inl e \<Rightarrow> ((projects, []), Some e)
                   | Inr (Some (JArr entries)) \<Rightarrow>
                       load_entries w currentProjectPath entries (projects, [])
                   | Inr other \<Rightarrow> ((projects, []), None))))"

record load_result =
  loaded_projects :: registry
  loaded_currentProjectName :: string
  loaded_console :: "log_entry list"

definition loadProjects :: "world \<Rightarrow> string \<Rightarrow> load_result" where
  "loadProjects w currentProjectPath =
     (let currentProjectName = path_basename w currentProjectPath;
          projects = set_prop [] currentProjectName currentProjectPath
      in case load_config w currentProjectPath projects of
           ((projects', log), None) \<Rightarrow>
             \<lparr>loaded_projects = projects', loaded_currentProjectName = currentProjectName,
              loaded_console = log\<rparr>
         | ((projects', log), Some error) \<Rightarrow>
             \<lparr>loaded_projects = projects', loaded_currentProjectName = currentProjectName,
              loaded_console =
                log @ (if error_code error \<noteq> Some ''ENOENT''
                       then [Warning (error_message error)] else [])\<rparr>)"

section \<open>Strings and numbers of the tool handlers\<close>

text \<open>\<open>s.split(c)\<close> for a one-character separator: never an empty array.\<close>

fun split_on :: "char \<Rightarrow> string \<Rightarrow> string list" where
  "split_on c [] = [[]]"
| "split_on c (x # xs) =
     (if x = c then [] # split_on c xs
      else (case split_on c xs of
              [] \<Rightarrow> [[x]]
            | y # ys \<Rightarrow> (x # y) # ys))"

text \<open>White space of \<open>trim\<close> and \<open>parseInt\<close> among the code units below 256.\<close>

definition js_whitespace :: "char \<Rightarrow> bool" where
  "js_whitespace c = ((of_char c :: nat) \<in> {9, 10, 11, 12, 13, 32, 160})"

definition trim :: "string \<Rightarrow> string" where
  "trim s = rev (dropWhile js_whitespace (rev (dropWhile js_whitespace s)))"

definition nth_opt :: "'a list \<Rightarrow> nat \<Rightarrow> 'a option" where
  "nth_opt xs i = (if i < length xs then Some (xs ! i) else None)"

text \<open>A number in a template literal: the decimal numeral of an integer (of
  magnitude below \<open>10^21\<close>, where JavaScript switches to the exponent form).\<close>

fun show_nat :: "nat \<Rightarrow> string" where
  "show_nat n =
     (if n < 10 then [char_of (48 + n)]
      else show_nat (n div 10) @ [char_of (48 + n mod 10)])"

definition show_int :: "int \<Rightarrow> string" where
  "show_int i = (if i < 0 then ''-'' @ show_nat (nat (- i)) else show_nat (nat i))"

text \<open>
  \<open>parseInt(s)\<close> without a radix: leading white space, an optional sign, an optional
  \<open>0x\<close> that selects radix 16, then the longest run of digits; \<open>NaN\<close> (\<open>None\<close>) when
  that run is empty. The result is exact below \<open>2^53\<close>.
\<close>

definition hex_digit_value :: "char \<Rightarrow> nat option" where
  "hex_digit_value c =
     (let n = (of_char c :: nat)
      in if 48 \<le> n \<and> n \<le> 57 then Some (n - 48)
         else if 97 \<le> n \<and> n \<le> 102 then Some (n - 87)
         else if 65 \<le> n \<and> n \<le> 70 then Some (n - 55)
         else None)"

definition radix_digit :: "nat \<Rightarrow> char \<Rightarrow> bool" where
  "radix_digit radix c =
     (case hex_digit_value c of None \<Rightarrow> False | Some d \<Rightarrow> d < radix)"

definition radix_value :: "nat \<Rightarrow> string \<Rightarrow> nat" where
  "radix_value radix ds =
     foldl (\<lambda>n c. radix * n + (case hex_digit_value c of None \<Rightarrow> 0 | Some d \<Rightarrow> d)) 0 ds"

definition parseInt :: "string \<Rightarrow> int option" where
  "parseInt s =
     (let s1 = dropWhile js_whitespace s;
          negative = (take 1 s1 = ''-'');
          s2 = (if take 1 s1 = ''-'' \<or> take 1 s1 = ''+'' then drop 1 s1 else s1);
          hex = (take 2 s2 = ''0x'' \<or> take 2 s2 = ''0X'');
          radix = (if hex then 16 else 10);
          s3 = (if hex then drop 2 s2 else s2);
          ds = takeWhile (radix_digit radix) s3
      in if ds = [] then None
         else Some (if negative then - int (radix_value radix ds)
                    else int (radix_value radix ds)))"

text \<open>
  \<open>new Date(t * 1000).toISOString()\<close>: a RangeError when the time value is \<open>NaN\<close> or
  beyond 8.64e15 milliseconds from the epoch.
\<close>

definition date_iso :: "world \<Rightarrow> int option \<Rightarrow> js_error + string" where
  "date_iso w t =
     (case t of
        None \<Rightarrow> Inl (RangeError ''Invalid time value'')
      | Some n \<Rightarrow>
          if \<bar>n * 1000\<bar> \<le> 8640000000000000 then Inr (date_toISOString w (n * 1000))
          else Inl (RangeError ''Invalid time value''))"

text \<open>\<open>xs.slice(0, n)\<close>: a negative \<open>n\<close> counts from the end.\<close>

definition js_slice0 :: "'a list \<Rightarrow> int \<Rightarrow> 'a list" where
  "js_slice0 xs n = take (nat (if n < 0 then int (length xs) + n else n)) xs"

definition truthy_str :: "string option \<Rightarrow> bool" where
  "truthy_str v = (case v of None \<Rightarrow> False | Some s \<Rightarrow> s \<noteq> [])"

definition truthy_num :: "int option \<Rightarrow> bool" where
  "truthy_num v = (case v of None \<Rightarrow> False | Some n \<Rightarrow> n \<noteq> 0)"

text \<open>\<open>...(v && { [key]: v })\<close> in an object literal.\<close>

definition spread_str :: "string \<Rightarrow> string option \<Rightarrow> log_options" where
  "spread_str key v =
     (case v of None \<Rightarrow> [] | Some s \<Rightarrow> if s \<noteq> [] then [(key, OStr s)] else [])"

section \<open>Git helpers (src/utils/gitHelpers.js)\<close>

definition getGitInstance :: "world \<Rightarrow> registry \<Rightarrow> string \<Rightarrow> js_value io" where
  "getGitInstance w projects projectName =
     io_bind (io_pure (getProjectPath projects projectName)) (\<lambda>root.
     io_bind (io_call (SimpleGit root) (simpleGit w root)) (\<lambda>git.
     io_bind (io_call (CheckIsRepo root) (git_checkIsRepo w root)) (\<lambda>isRepo.
       if \<not> isRepo
       then io_throw (Error (''Project '' @ quoted projectName @ '' at '' @ display root
                             @ '' is not a git repository''))
       else io_return root)))"

text \<open>A commit of a response. The fields read from a line of raw git output are
  \<open>undefined\<close> (\<open>None\<close>) when the line has too few separators.\<close>

record commit =
  commit_hash :: string
  commit_author :: "string option"
  commit_email :: "string option"
  commit_date :: "string option"
  commit_message :: string
  commit_body :: string

definition formatCommit :: "raw_commit \<Rightarrow> commit" where
  "formatCommit c =
     \<lparr>commit_hash = raw_hash c,
      commit_author = Some (raw_author_name c),
      commit_email = Some (raw_author_email c),
      commit_date = Some (raw_date c),
      commit_message = raw_message c,
      commit_body = (if raw_body c \<noteq> [] then raw_body c else [])\<rparr>"

section \<open>Tool handlers\<close>

text \<open>A line of the \<open>gitBlame\<close> response.\<close>

record blame_line =
  blame_hash :: string
  blame_lineNum :: "int option"
  blame_author :: "string option"
  blame_date :: "string option"
  blame_summary :: "string option"
  blame_content :: "string option"

text \<open>
  What a handler returns: the object it serialises with \<open>JSON.stringify\<close>, or the
  parts of the text it formats.
\<close>

datatype payload =
    AddedProject string js_value "(string \<times> string) list"
  | RemovedProject string "(string \<times> string) list"
  | NoProjects
  | ProjectList "(string \<times> string) list"
  | FileList "(string \<times> string) list"
  | FileContent string
  | CommitHistory string string nat "commit list"
  | SearchResult string string bool nat "commit list"
  | CommitDetails string commit string string
  | FileHistory string string nat "commit list"
  | Blame string string "blame_line list"
  | RepositoryInfo string status_result branch_summary "remote list" "string list"
  | BranchComparison string string string nat "commit list" string

subsection \<open>Git history tools (src/tools/gitTools.js)\<close>

definition getCommitHistory ::
  "world \<Rightarrow> registry \<Rightarrow> string \<Rightarrow> string option \<Rightarrow> int option \<Rightarrow> int option
     \<Rightarrow> string option \<Rightarrow> string option \<Rightarrow> string option \<Rightarrow> payload io" where
  "getCommitHistory w projects project branch maxCount0 skip0 author since until =
     (let maxCount = (case maxCount0 of None \<Rightarrow> 50 | Some n \<Rightarrow> n);
          skip = (case skip0 of None \<Rightarrow> 0 | Some n \<Rightarrow> n)
      in io_rethrow ''Failed to get commit history: ''
           (io_bind (getGitInstance w projects project) (\<lambda>git.
              let options = [(''maxCount'', ONum maxCount)]
                    @ (if skip \<noteq> 0 then [(''skip'', ONum skip)] else [])
                    @ spread_str ''--author'' author
                    @ spread_str ''--since'' since
                    @ spread_str ''--until'' until;
                  options' = (case branch of
                                None \<Rightarrow> options
                              | Some b \<Rightarrow> if b \<noteq> [] then AList.update b ONull options
                                          else options)
              in io_bind (io_call (GitLog git options') (git_log w git options')) (\<lambda>log.
                   let commits = map formatCommit log
                   in io_return
                        (CommitHistory project
                           (case branch of
                              None \<Rightarrow> ''(current)''
                            | Some b \<Rightarrow> if b \<noteq> [] then b else ''(current)'')
                           (length commits) commits)))))"

text \<open>
  \<open>searchCommits\<close>. \<open>parse_diff_line\<close> is the destructuring of
  \<open>line.split('|')\<close>; \<open>unique_by_hash\<close> is
  \<open>Array.from(new Map(allCommits.map(c => [c.hash, c])).values())\<close>: a Map keeps a key
  at the position of its first insertion and the value of its last.
\<close>

definition parse_diff_line :: "string \<Rightarrow> commit" where
  "parse_diff_line line =
     (let parts = split_on (CHR ''|'') line
      in \<lparr>commit_hash = (case parts of [] \<Rightarrow> [] | h # rest \<Rightarrow> h),
          commit_author = nth_opt parts 1,
          commit_email = nth_opt parts 2,
          commit_date = nth_opt parts 3,
          commit_message = join ''|'' (drop 4 parts),
          commit_body = ''(found in code changes)''\<rparr>)"

definition parse_diff_results :: "string \<Rightarrow> commit list" where
  "parse_diff_results diffResults =
     map parse_diff_line
       (filter (\<lambda>line. trim line \<noteq> []) (split_on (CHR 0x0A) diffResults))"

definition unique_by_hash :: "commit list \<Rightarrow> commit list" where
  "unique_by_hash allCommits =
     map snd (foldl (\<lambda>m c. AList.update (commit_hash c) c m) [] allCommits)"

definition search_options :: "string \<Rightarrow> int \<Rightarrow> string option \<Rightarrow> log_options" where
  "search_options query maxCount author =
     [(''--grep'', OStr query), (''--regexp-ignore-case'', ONull), (''maxCount'', ONum maxCount)]
     @ spread_str ''--author'' author"

definition diff_options :: "string \<Rightarrow> int \<Rightarrow> string option \<Rightarrow> string list" where
  "diff_options query maxCount author =
     [''log'', ''-S'' @ query, ''--regexp-ignore-case'', ''--max-count='' @ show_int maxCount,
      ''--pretty=format:%H|%an|%ae|%ad|%s'', ''--date=iso'']
     @ (case author of None \<Rightarrow> [] | Some a \<Rightarrow> if a \<noteq> [] then [''--author='' @ a] else [])"

definition searchCommits ::
  "world \<Rightarrow> registry \<Rightarrow> string \<Rightarrow> string \<Rightarrow> bool option \<Rightarrow> int option \<Rightarrow> string option
     \<Rightarrow> payload io" where
  "searchCommits w projects project query searchInDiff0 maxCount0 author =
     (let searchInDiff = (case searchInDiff0 of None \<Rightarrow> False | Some b \<Rightarrow> b);
          maxCount = (case maxCount0 of None \<Rightarrow> 50 | Some n \<Rightarrow> n)
      in io_rethrow ''Failed to search commits: ''
           (io_bind (getGitInstance w projects project) (\<lambda>git.
              let options = search_options query maxCount author
              in io_bind (io_call (GitLog git options) (git_log w git options)) (\<lambda>log.
                   let commits = map formatCommit log
                   in io_bind
                        (if searchInDiff
                         then (let diffOptions = diff_options query maxCount author
                               in io_bind (io_call (GitRaw git diffOptions)
                                             (git_raw w git diffOptions)) (\<lambda>diffResults.
                                    let diffCommits = parse_diff_results diffResults;
                                        allCommits = commits @ diffCommits;
                                        uniqueCommits = unique_by_hash allCommits
                                    in io_return (js_slice0 uniqueCommits maxCount)))
                         else io_return commits) (\<lambda>commits'.
                        io_return
                          (SearchResult project query searchInDiff (length commits')
                             commits'))))))"

definition getCommitDetails :: "world \<Rightarrow> registry \<Rightarrow> string \<Rightarrow> string \<Rightarrow> payload io" where
  "getCommitDetails w projects project commitHash =
     io_rethrow ''Failed to get commit details: ''
       (io_bind (getGitInstance w projects project) (\<lambda>git.
          let options = AList.update commitHash ONull [(''maxCount'', ONum 1)]
          in io_bind (io_call (GitLog git options) (git_log w git options)) (\<lambda>log.
               case log of
                 [] \<Rightarrow> io_throw (Error (''Commit '' @ quoted commitHash @ '' not found''))
               | first # others \<Rightarrow>
                   let commit = formatCommit first
                   in io_bind (io_call (GitShow git [commitHash])
                                 (git_show w git [commitHash])) (\<lambda>diff.
                      io_bind (io_call (GitRaw git [''show'', ''--stat'', ''--oneline'', commitHash])
                                 (git_raw w git [''show'', ''--stat'', ''--oneline'', commitHash]))
                        (\<lambda>stats.
                      io_return (CommitDetails project commit stats diff))))))"

definition getFileHistory ::
  "world \<Rightarrow> registry \<Rightarrow> string \<Rightarrow> string \<Rightarrow> int option \<Rightarrow> payload io" where
  "getFileHistory w projects project file maxCount0 =
     (let maxCount = (case maxCount0 of None \<Rightarrow> 50 | Some n \<Rightarrow> n)
      in io_rethrow ''Failed to get file history: ''
           (io_bind (getGitInstance w projects project) (\<lambda>git.
              let options = [(''file'', OStr file), (''maxCount'', ONum maxCount)]
              in io_bind (io_call (GitLog git options) (git_log w git options)) (\<lambda>log.
                   let commits = map formatCommit log
                   in io_return (FileHistory project file (length commits) commits)))))"

text \<open>
  \<open>gitBlame\<close>. \<open>is_commit_line\<close> is \<open>line.match(/^[0-9a-f]{40}/)\<close>; \<open>blame_step\<close> is
  the body of the parsing loop on the pair of \<open>blameData\<close> and \<open>currentCommit\<close>.
\<close>

definition is_hex_lower :: "char \<Rightarrow> bool" where
  "is_hex_lower c =
     (let n = (of_char c :: nat) in (48 \<le> n \<and> n \<le> 57) \<or> (97 \<le> n \<and> n \<le> 102))"

definition is_commit_line :: "string \<Rightarrow> bool" where
  "is_commit_line line = (40 \<le> length line \<and> list_all is_hex_lower (take 40 line))"

definition blame_step ::
  "world \<Rightarrow> blame_line list \<times> blame_line option \<Rightarrow> string
     \<Rightarrow> js_error + (blame_line list \<times> blame_line option)" where
  "blame_step w st line =
     (case st of (blameData, currentCommit) \<Rightarrow>
        if is_commit_line line then
          (let parts = split_on (CHR '' '') line
           in Inr (blameData,
                   Some \<lparr>blame_hash = (case parts of [] \<Rightarrow> [] | h # rest \<Rightarrow> h),
                         blame_lineNum =
                           parseInt (case nth_opt parts 2 of
                                       None \<Rightarrow> ''undefined'' | Some lineNum \<Rightarrow> lineNum),
                         blame_author = None, blame_date = None, blame_summary = None,
                         blame_content = None\<rparr>))
        else (case currentCommit of
                None \<Rightarrow> Inr st
              | Some c \<Rightarrow>
                  if prefix ''author '' line then
                    Inr (blameData, Some (c\<lparr>blame_author := Some (drop 7 line)\<rparr>))
                  else if prefix ''author-time '' line then
                    (case date_iso w (parseInt (drop 12 line)) of
                       Inl e \<Rightarrow> Inl e
                     | Inr d \<Rightarrow> Inr (blameData, Some (c\<lparr>blame_date := Some d\<rparr>)))
                  else if prefix ''summary '' line then
                    Inr (blameData, Some (c\<lparr>blame_summary := Some (drop 8 line)\<rparr>))
                  else if prefix [CHR 0x09] line then
                    Inr (blameData @ [c\<lparr>blame_content := Some (drop 1 line)\<rparr>], None)
                  else Inr st))"

fun blame_loop ::
  "world \<Rightarrow> string list \<Rightarrow> blame_line list \<times> blame_line option
     \<Rightarrow> js_error + blame_line list" where
  "blame_loop w [] st = Inr (fst st)"
| "blame_loop w (line # rest) st =
     (case blame_step w st line of
        Inl e \<Rightarrow> Inl e
      | Inr st' \<Rightarrow> blame_loop w rest st')"

definition parse_blame :: "world \<Rightarrow> string \<Rightarrow> js_error + blame_line list" where
  "parse_blame w blameOutput = blame_loop w (split_on (CHR 0x0A) blameOutput) ([], None)"

definition blame_args :: "string \<Rightarrow> int option \<Rightarrow> int option \<Rightarrow> string list" where
  "blame_args file startLine endLine =
     [''blame'', ''--line-porcelain'']
     @ (case (startLine, endLine) of
          (Some s, Some e) \<Rightarrow>
            if s \<noteq> 0 \<and> e \<noteq> 0 then [''-L'' @ show_int s @ '','' @ show_int e] else []
        | other \<Rightarrow> [])
     @ [file]"

definition gitBlame ::
  "world \<Rightarrow> registry \<Rightarrow> string \<Rightarrow> string \<Rightarrow> int option \<Rightarrow> int option \<Rightarrow> payload io" where
  "gitBlame w projects project file startLine endLine =
     io_rethrow ''Failed to get git blame: ''
       (io_bind (getGitInstance w projects project) (\<lambda>git.
        io_bind (io_pure (getProjectPath projects project)) (\<lambda>root.
        io_bind (io_pure (js_path_join w [root, Str file])) (\<lambda>filePath.
        io_bind (case io_call (FsAccess filePath) (fs_access w filePath) of
                   (t, Inl e) \<Rightarrow>
                     (t, Inl (Error (''File '' @ quoted file @ '' not found in project ''
                                     @ quoted project)))
                 | (t, Inr u) \<Rightarrow> (t, Inr u)) (\<lambda>u.
        let args = blame_args file startLine endLine
        in io_bind (io_call (GitRaw git args) (git_raw w git args)) (\<lambda>blameOutput.
           io_bind (io_pure (parse_blame w blameOutput)) (\<lambda>blameData.
           io_return (Blame project file blameData))))))))"

definition getRepositoryInfo :: "world \<Rightarrow> registry \<Rightarrow> string \<Rightarrow> payload io" where
  "getRepositoryInfo w projects project =
     io_rethrow ''Failed to get repository info: ''
       (io_bind (getGitInstance w projects project) (\<lambda>git.
        io_bind (io_call (GitStatus git) (git_status w git)) (\<lambda>status.
        io_bind (io_call (GitBranch git) (git_branch w git)) (\<lambda>branches.
        io_bind (io_call (GitGetRemotes git) (git_getRemotes w git)) (\<lambda>remotes.
        io_bind (io_call (GitTags git) (git_tags w git)) (\<lambda>tags.
        io_return (RepositoryInfo project status branches remotes tags)))))))"

definition compareBranches ::
  "world \<Rightarrow> registry \<Rightarrow> string \<Rightarrow> string \<Rightarrow> string \<Rightarrow> payload io" where
  "compareBranches w projects project baseBranch compareBranch =
     io_rethrow ''Failed to compare branches: ''
       (io_bind (getGitInstance w projects project) (\<lambda>git.
          let options = [(''from'', OStr baseBranch), (''to'', OStr compareBranch)]
          in io_bind (io_call (GitLog git options) (git_log w git options)) (\<lambda>log.
               let commits = map formatCommit log;
                   args = [''diff'', ''--stat'', baseBranch @ ''...'' @ compareBranch]
               in io_bind (io_call (GitRaw git args) (git_raw w git args)) (\<lambda>stats.
                    io_return
                      (BranchComparison project baseBranch compareBranch (length commits)
                         commits stats)))))"

subsection \<open>File access tools (src/tools/fileTools.js)\<close>

text \<open>The two tools that change the registry return it with their payload.\<close>

definition addProject_tool ::
  "world \<Rightarrow> registry \<Rightarrow> string \<Rightarrow> string \<Rightarrow> (registry \<times> payload) io" where
  "addProject_tool w projects name projectPath =
     io_rethrow ''Failed to add project: ''
       (io_bind (addProject w projects name projectPath) (\<lambda>projects'.
          io_return
            (projects', AddedProject name (get_prop projects' name) (object_entries projects'))))"

definition removeProject_tool :: "registry \<Rightarrow> string \<Rightarrow> (registry \<times> payload) io" where
  "removeProject_tool projects name =
     io_bind (io_pure (removeProject projects name)) (\<lambda>projects'.
       io_return (projects', RemovedProject name (object_entries projects')))"

definition listProjects :: "registry \<Rightarrow> payload io" where
  "listProjects projects =
     (let projectList = object_entries projects
      in if length projectList = 0 then io_return NoProjects
         else io_return (ProjectList projectList))"

definition listFiles :: "world \<Rightarrow> registry \<Rightarrow> string \<Rightarrow> string option \<Rightarrow> payload io" where
  "listFiles w projects project dir0 =
     (let dir = (case dir0 of None \<Rightarrow> [] | Some d \<Rightarrow> d)
      in io_bind (io_pure (getProjectPath projects project)) (\<lambda>root.
         io_bind (io_pure (js_path_join w [root, Str dir])) (\<lambda>target.
         io_bind (io_call (FsReaddir target) (fs_readdir w target)) (\<lambda>items.
         io_return
           (FileList (map (\<lambda>item. (fst item, if snd item then ''directory'' else ''file''))
                        items))))))"

definition readFile :: "world \<Rightarrow> registry \<Rightarrow> string \<Rightarrow> string \<Rightarrow> payload io" where
  "readFile w projects project file =
     io_bind (io_pure (getProjectPath projects project)) (\<lambda>root.
     io_bind (io_pure (js_path_join w [root, Str file])) (\<lambda>filePath.
     io_bind (io_call (FsReadFile filePath) (fs_readFile w filePath)) (\<lambda>content.
     io_return (FileContent content))))"

section \<open>Sample worlds\<close>

text \<open>
  Concrete collaborators for the examples. The path functions answer as Node's POSIX
  ones do on absolute, normalised paths; every file is missing and every git call
  fails unless an example says otherwise.
\<close>

definition enoent :: "string \<Rightarrow> js_error" where
  "enoent p = NodeError ''ENOENT'' (''ENOENT: no such file or directory, '' @ p)"

definition sample_resolve :: "string list \<Rightarrow> string" where
  "sample_resolve ps =
     foldl (\<lambda>acc p. if p = [] then acc else if take 1 p = ''/'' then p else acc @ ''/'' @ p)
       ''/'' ps"

definition sample_world :: world where
  "sample_world =
     \<lparr>path_basename = (\<lambda>p. last (split_on (CHR ''/'') p)),
      path_join = join ''/'',
      path_resolve = sample_resolve,
      fs_stat = (\<lambda>p. if p \<in> {''/repo/app'', ''/repo/lib'', ''/repo/lib2''} then Inr True
                      else Inl (enoent p)),
      fs_readFile = (\<lambda>p. Inl (enoent p)),
      fs_readdir = (\<lambda>p. Inl (enoent p)),
      fs_access = (\<lambda>p. Inl (enoent p)),
      json_parse = (\<lambda>s. Inl ''Unexpected end of JSON input''),
      date_toISOString =
        (\<lambda>t. if t = 1700000000000 then ''2023-11-14T22:13:20.000Z''
             else ''1970-01-01T00:00:00.000Z''),
      simpleGit = (\<lambda>root. Inl (Error ''Cannot use simple-git on a directory that does not exist'')),
      git_checkIsRepo = (\<lambda>root. Inr False),
      git_log = (\<lambda>root options. Inl (Error ''fatal: not a git repository'')),
      git_raw = (\<lambda>root args. Inl (Error ''fatal: not a git repository'')),
      git_show = (\<lambda>root args. Inl (Error ''fatal: not a git repository'')),
      git_status = (\<lambda>root. Inl (Error ''fatal: not a git repository'')),
      git_branch = (\<lambda>root. Inl (Error ''fatal: not a git repository'')),
      git_getRemotes = (\<lambda>root. Inl (Error ''fatal: not a git repository'')),
      git_tags = (\<lambda>root. Inl (Error ''fatal: not a git repository''))\<rparr>"

text \<open>The current project \<open>/repo/app\<close> with a link file whose parsed content is \<open>config\<close>.\<close>

definition config_world :: "json \<Rightarrow> world" where
  "config_world config =
     sample_world
       \<lparr>fs_readFile := (\<lambda>p. if p = ''/repo/app/.workspace-bridge.json'' then Inr ''(link file)''
                            else Inl (enoent p)),
        json_parse := (\<lambda>s. if s = ''(link file)'' then Inr config
                           else Inl ''Unexpected end of JSON input'')\<rparr>"

definition link_entry :: "string \<Rightarrow> string \<Rightarrow> json" where
  "link_entry name path = JObj [(''name'', JStr name), (''path'', JStr path)]"

definition link_file :: "json list \<Rightarrow> json" where
  "link_file entries = JObj [(''projects'', JArr entries)]"

definition unreadable_world :: world where
  "unreadable_world =
     sample_world
       \<lparr>fs_readFile := (\<lambda>p. Inl (NodeError ''EACCES'' (''EACCES: permission denied, '' @ p)))\<rparr>"

definition malformed_world :: world where
  "malformed_world =
     sample_world
       \<lparr>fs_readFile := (\<lambda>p. if p = ''/repo/app/.workspace-bridge.json'' then Inr ''{ projects''
                            else Inl (enoent p))\<rparr>"

text \<open>A repository at \<open>/repo/app\<close> whose log answers \<open>log\<close> and whose raw commands
  answer \<open>output\<close>; every file exists.\<close>

definition git_world :: "raw_commit list \<Rightarrow> string \<Rightarrow> world" where
  "git_world log output =
     sample_world
       \<lparr>fs_access := (\<lambda>p. Inr ()),
        simpleGit := (\<lambda>root. if root = Str ''/repo/app'' then Inr ()
                             else Inl (Error ''Cannot use simple-git on a directory that does not exist'')),
        git_checkIsRepo := (\<lambda>root. Inr True),
        git_log := (\<lambda>root options. Inr log),
        git_raw := (\<lambda>root args. Inr output)\<rparr>"

definition sample_commit :: "string \<Rightarrow> string \<Rightarrow> raw_commit" where
  "sample_commit h subject =
     \<lparr>raw_hash = h, raw_date = ''2024-01-02T03:04:05+00:00'', raw_message = subject,
      raw_refs = [], raw_body = ''details'', raw_author_name = ''Ann'',
      raw_author_email = ''ann@example.org''\<rparr>"

definition hash_a :: string where
  "hash_a = ''a1b2c3d4e5f60718293a4b5c6d7e8f9011223344''"

definition hash_b :: string where
  "hash_b = ''b1b2c3d4e5f60718293a4b5c6d7e8f9011223344''"

definition hash_c :: string where
  "hash_c = ''c1b2c3d4e5f60718293a4b5c6d7e8f9011223344''"

text \<open>Raw output of the pickaxe search: the commit \<open>hash_a\<close>, which the message search
  finds too, and the commit \<open>hash_c\<close>, found in the diffs only.\<close>

definition sample_diff_output :: string where
  "sample_diff_output =
     hash_a @ ''|Ann|ann@example.org|2024-01-02 03:04:05 +0000|fix bug'' @ [CHR 0x0A]
     @ hash_c @ ''|Cy|cy@example.org|2024-01-03 03:04:05 +0000|rename a|b''"

section \<open>Notions used to state the properties\<close>

text \<open>The distinct elements of a list, each at the place of its first occurrence.\<close>

definition first_occurrences :: "'a list \<Rightarrow> 'a list" where
  "first_occurrences xs = rev (remdups (rev xs))"

text \<open>
  The attribution stream of \<open>git blame --line-porcelain\<close>: one group per source line,
  made of a header line (the commit's hash, the original and the final line number),
  metadata lines, and the content line behind a tab; every line ends with a newline.
  A group is well formed when its header starts with forty hexadecimal digits, no
  metadata line looks like a header or a content line, an \<open>author-time\<close> line carries a
  time the \<open>Date\<close> can render, and no line holds a newline. \<open>group_record\<close> is the
  record expected for a group: the last \<open>author\<close>, \<open>author-time\<close> and \<open>summary\<close> lines
  give their fields.
\<close>

record blame_group =
  group_header :: string
  group_meta :: "string list"
  group_content :: string

definition group_lines :: "blame_group \<Rightarrow> string list" where
  "group_lines g = group_header g # group_meta g @ [group_content g]"

definition render_groups :: "blame_group list \<Rightarrow> string" where
  "render_groups gs = concat (map (\<lambda>line. line @ [CHR 0x0A]) (concat (map group_lines gs)))"

definition valid_time :: "string \<Rightarrow> bool" where
  "valid_time v =
     (case parseInt v of None \<Rightarrow> False | Some n \<Rightarrow> \<bar>n * 1000\<bar> \<le> 8640000000000000)"

definition wf_meta :: "string \<Rightarrow> bool" where
  "wf_meta line =
     (\<not> is_commit_line line \<and> \<not> prefix [CHR 0x09] line \<and> CHR 0x0A \<notin> set line
      \<and> (prefix ''author-time '' line \<longrightarrow> valid_time (drop 12 line)))"

definition wf_group :: "blame_group \<Rightarrow> bool" where
  "wf_group g =
     (is_commit_line (group_header g) \<and> CHR 0x0A \<notin> set (group_header g)
      \<and> list_all wf_meta (group_meta g)
      \<and> prefix [CHR 0x09] (group_content g) \<and> CHR 0x0A \<notin> set (group_content g))"

definition last_value :: "string \<Rightarrow> string list \<Rightarrow> string option" where
  "last_value key lines =
     (case filter (prefix key) lines of
        [] \<Rightarrow> None
      | l # ls \<Rightarrow> Some (drop (length key) (last (l # ls))))"

definition group_lineNum :: "blame_group \<Rightarrow> int option" where
  "group_lineNum g =
     parseInt (case nth_opt (split_on (CHR '' '') (group_header g)) 2 of
                 None \<Rightarrow> ''undefined'' | Some field \<Rightarrow> field)"

definition time_iso :: "world \<Rightarrow> string \<Rightarrow> string" where
  "time_iso w v = (case parseInt v of None \<Rightarrow> [] | Some n \<Rightarrow> date_toISOString w (n * 1000))"

definition group_record :: "world \<Rightarrow> blame_group \<Rightarrow> blame_line" where
  "group_record w g =
     \<lparr>blame_hash = (case split_on (CHR '' '') (group_header g) of [] \<Rightarrow> [] | h # rest \<Rightarrow> h),
      blame_lineNum = group_lineNum g,
      blame_author = last_value ''author '' (group_meta g),
      blame_date = map_option (time_iso w) (last_value ''author-time '' (group_meta g)),
      blame_summary = last_value ''summary '' (group_meta g),
      blame_content = Some (drop 1 (group_content g))\<rparr>"

definition start_record :: "string \<Rightarrow> blame_line" where
  "start_record header =
     \<lparr>blame_hash = (case split_on (CHR '' '') header of [] \<Rightarrow> [] | h # rest \<Rightarrow> h),
      blame_lineNum =
        parseInt (case nth_opt (split_on (CHR '' '') header) 2 of
                    None \<Rightarrow> ''undefined'' | Some field \<Rightarrow> field),
      blame_author = None, blame_date = None, blame_summary = None, blame_content = None\<rparr>"

definition with_metas :: "world \<Rightarrow> blame_line \<Rightarrow> string list \<Rightarrow> blame_line" where
  "with_metas w c metas =
     c\<lparr>blame_author := (case last_value ''author '' metas of
                           None \<Rightarrow> blame_author c | Some v \<Rightarrow> Some v),
       blame_date := (case last_value ''author-time '' metas of
                         None \<Rightarrow> blame_date c | Some v \<Rightarrow> Some (time_iso w v)),
       blame_summary := (case last_value ''summary '' metas of
                            None \<Rightarrow> blame_summary c | Some v \<Rightarrow> Some v)\<rparr>"

text \<open>A stream for a file of two lines.\<close>

definition sample_groups :: "blame_group list" where
  "sample_groups =
     [\<lparr>group_header = hash_a @ '' 1 1 1'',
       group_meta = [''author Ann'', ''author-mail <ann@example.org>'',
                     ''author-time 1700000000'', ''author-tz +0000'', ''committer Ann'',
                     ''summary fix bug'', ''filename src/main.js''],
       group_content = [CHR 0x09] @ ''const x = 1;''\<rparr>,
      \<lparr>group_header = hash_b @ '' 2 2 1'',
       group_meta = [''author Bob'', ''author-mail <bob@example.org>'',
                     ''author-time 1700000000'', ''author-tz +0000'', ''committer Bob'',
                     ''summary add y'', ''previous '' @ hash_a @ '' src/main.js'',
                     ''filename src/main.js''],
       group_content = [CHR 0x09] @ ''const y = 2;''\<rparr>]"

text \<open>
  What the link file contributes. \<open>config_entries\<close> is the \<open>projects\<close> array of the
  parsed file, empty when the file is absent, unreadable, malformed or of another
  shape; \<open>loaded_bindings\<close> lists, in order, the name and resolved path of each entry
  the loop stores before it ends or throws; \<open>last_path_of\<close> is the path of the last
  binding of a name.
\<close>

definition config_entries :: "world \<Rightarrow> string \<Rightarrow> json list" where
  "config_entries w currentProjectPath =
     (case fs_readFile w (path_join w [currentProjectPath, ''.workspace-bridge.json'']) of
        Inl e \<Rightarrow> []
      | Inr configContent \<Rightarrow>
          (case json_parse w configContent of
             Inl m \<Rightarrow> []
           | Inr config \<Rightarrow>
               (case json_member config ''projects'' of
                  Inr (Some (JArr entries)) \<Rightarrow> entries
                | other \<Rightarrow> [])))"

fun loaded_bindings :: "world \<Rightarrow> string \<Rightarrow> json list \<Rightarrow> (string \<times> string) list" where
  "loaded_bindings w currentProjectPath [] = []"
| "loaded_bindings w currentProjectPath (project # rest) =
     (case load_entry w currentProjectPath project of
        Inl e \<Rightarrow> []
      | Inr None \<Rightarrow> loaded_bindings w currentProjectPath rest
      | Inr (Some kv) \<Rightarrow> kv # loaded_bindings w currentProjectPath rest)"

definition last_path_of :: "string \<Rightarrow> (string \<times> string) list \<Rightarrow> string option" where
  "last_path_of name bindings =
     (case filter (\<lambda>kv. fst kv = name) bindings of
        [] \<Rightarrow> None
      | kv # kvs \<Rightarrow> Some (snd (last (kv # kvs))))"

section \<open>Properties of the registry\<close>

lemma get_prop_set_prop_same:
  "k \<noteq> ''__proto__'' \<Longrightarrow> get_prop (set_prop projects k v) k = Str v"
  by (simp add: get_prop_def set_prop_def update_conv')

lemma get_prop_set_prop_other:
  "k' \<noteq> k \<Longrightarrow> get_prop (set_prop projects k v) k' = get_prop projects k'"
  by (simp add: get_prop_def set_prop_def update_conv')

lemma get_prop_absent:
  "k \<notin> fst ` set projects \<Longrightarrow> k \<notin> set object_prototype_keys \<Longrightarrow>
     get_prop projects k = Undefined"
proof -
  assume a: "k \<notin> fst ` set projects" and b: "k \<notin> set object_prototype_keys"
  from a have "map_of projects k = None" by (simp add: map_of_eq_None_iff)
  with b show ?thesis by (simp add: get_prop_def)
qed

lemma sublist_join: "k \<in> set ks \<Longrightarrow> sublist k (join sep ks)"
proof (induction sep ks rule: join.induct)
  case (1 sep)
  then show ?case by simp
next
  case (2 sep x)
  then show ?case by simp
next
  case (3 sep x y ys)
  show ?case
  proof (cases "k = x")
    case True
    then show ?thesis by simp
  next
    case False
    with 3 have "sublist k (join sep (y # ys))" by simp
    then obtain ps ss where "join sep (y # ys) = ps @ k @ ss"
      by (auto simp: sublist_def)
    then have "join sep (x # y # ys) = (x @ sep @ ps) @ k @ ss" by simp
    then show ?thesis unfolding sublist_def by blast
  qed
qed

lemma set_object_keys: "set (object_keys projects) = fst ` set projects"
  by (auto simp: object_keys_def object_entries_def)

lemma object_keys_Nil: "object_keys [] = []"
  by (simp add: object_keys_def object_entries_def)

text \<open>
  For a name that is neither registered nor a property of \<open>Object.prototype\<close>,
  \<open>getProjectPath\<close> throws, and its message starts with \<open>Unknown project: name\<close>, lists
  every registered name, and says that there is none when the registry is empty.
\<close>

lemma getProjectPath_unknown:
  assumes "projectName \<notin> fst ` set projects"
    and "projectName \<notin> set object_prototype_keys"
  shows "getProjectPath projects projectName =
           Inl (Error (unknown_project_message projects projectName))"
  using assms by (simp add: getProjectPath_def get_prop_absent)

lemma unknown_project_message_lists_names:
  assumes k: "k \<in> fst ` set projects"
  shows "sublist k (unknown_project_message projects projectName)"
proof -
  from k have "k \<in> set (object_keys projects)" by (simp add: set_object_keys)
  then have "sublist k (join '', '' (object_keys projects))" by (rule sublist_join)
  then obtain ps ss where j: "join '', '' (object_keys projects) = ps @ k @ ss"
    by (auto simp: sublist_def)
  from k have ne: "object_keys projects \<noteq> []" using set_object_keys[of projects] by auto
  have "unknown_project_message projects projectName =
      (''Unknown project: '' @ projectName @ ''. Available projects: '' @ ps) @ k @ ss"
    using ne j by (simp add: unknown_project_message_def Let_def)
  then show ?thesis unfolding sublist_def by blast
qed

lemma unknown_project_message_empty:
  "unknown_project_message [] projectName =
     ''Unknown project: '' @ projectName
     @ ''. Available projects: none (use addProject tool first)''"
  by (simp add: unknown_project_message_def object_keys_Nil)

lemma unknown_project_message_prefix:
  "prefix (''Unknown project: '' @ projectName)
     (unknown_project_message projects projectName)"
  by (simp add: unknown_project_message_def Let_def)

lemma getProjectPath_missing:
  "\<exists>m. getProjectPath [] ''missing'' = Inl (Error m) \<and> prefix ''Unknown project: missing'' m"
  by (simp add: getProjectPath_def get_prop_def object_prototype_keys_def
      unknown_project_message_def object_keys_Nil)

lemma getProjectPath_inherited:
  assumes "k \<in> set object_prototype_keys" and "k \<notin> fst ` set projects"
  shows "getProjectPath projects k = Inr (Inherited k)"
proof -
  from assms(2) have "map_of projects k = None" by (simp add: map_of_eq_None_iff)
  with assms(1) show ?thesis by (simp add: getProjectPath_def get_prop_def)
qed

lemma toString_inherited: "getProjectPath [] ''toString'' = Inr (Inherited ''toString'')"
  by (simp add: getProjectPath_def get_prop_def object_prototype_keys_def)

text \<open>
  Claim C1: for every registry state and every project name not present in the
  registry, resolve fails with a ProjectNotFound error whose message lists every
  registered name (or says that none is registered). The code does not: a name that
  \<open>Object.prototype\<close> defines, such as \<open>toString\<close>, is not registered in the empty
  registry, and \<open>getProjectPath\<close> returns the inherited function instead of throwing.
  (For every other unregistered name the claim holds: \<open>getProjectPath_unknown\<close>,
  \<open>unknown_project_message_lists_names\<close>, \<open>unknown_project_message_empty\<close>.)
\<close>

theorem getProjectPath_returns_inherited_function:
  "''toString'' \<notin> fst ` set ([] :: registry)
   \<and> getProjectPath [] ''toString'' = Inr (Inherited ''toString'')"
  by (simp add: getProjectPath_def get_prop_def object_prototype_keys_def)

subsection \<open>addProject and removeProject\<close>

lemma addProject_ok:
  assumes "fs_stat w projectPath = Inr True"
  shows "addProject w projects name projectPath =
           ([FsStat projectPath], Inr (set_prop projects name (path_resolve w [projectPath])))"
  using assms by (simp add: addProject_def io_bind_def io_call_def io_return_def)

text \<open>
  Insert, then resolve: for every name but \<open>__proto__\<close> and every path that \<open>fs.stat\<close>
  reports as a directory, \<open>addProject\<close> succeeds and \<open>getProjectPath\<close> then returns
  what \<open>path.resolve\<close> made of the path (an absolute path, so never the empty string).
\<close>

lemma addProject_then_getProjectPath:
  assumes "fs_stat w projectPath = Inr True" and "name \<noteq> ''__proto__''"
    and "path_resolve w [projectPath] \<noteq> []"
  shows "\<exists>projects'. snd (addProject w projects name projectPath) = Inr projects'
           \<and> getProjectPath projects' name = Inr (Str (path_resolve w [projectPath]))"
  using assms by (simp add: addProject_ok getProjectPath_def get_prop_set_prop_same)

text \<open>Inserting a name twice: no error, and the second path is the one resolved.\<close>

lemma addProject_twice_last_wins:
  assumes "fs_stat w p1 = Inr True" and "fs_stat w p2 = Inr True"
    and "name \<noteq> ''__proto__''" and "path_resolve w [p2] \<noteq> []"
  shows "\<exists>projects1 projects2.
           snd (addProject w projects name p1) = Inr projects1
           \<and> snd (addProject w projects1 name p2) = Inr projects2
           \<and> getProjectPath projects2 name = Inr (Str (path_resolve w [p2]))"
  using assms by (simp add: addProject_ok getProjectPath_def get_prop_set_prop_same)

text \<open>
  Removing a name that is neither registered nor inherited throws (the registry is
  then untouched: the \<open>delete\<close> is not reached); removing a registered name that
  \<open>Object.prototype\<close> does not define succeeds, and resolving it afterwards throws.
\<close>

lemma removeProject_absent:
  assumes "name \<notin> fst ` set projects" and "name \<notin> set object_prototype_keys"
  shows "removeProject projects name =
           Inl (Error (''Project '' @ [CHR 0x27] @ name @ [CHR 0x27] @ '' not found''))"
  using assms by (simp add: removeProject_def get_prop_absent)

lemma removeProject_present:
  assumes "map_of projects name = Some p" and "p \<noteq> []"
    and "name \<notin> set object_prototype_keys"
  shows "removeProject projects name = Inr (delete_prop projects name)"
    and "getProjectPath (delete_prop projects name) name =
           Inl (Error (unknown_project_message (delete_prop projects name) name))"
  using assms
  by (simp_all add: removeProject_def get_prop_def getProjectPath_def delete_prop_def
      delete_conv')

text \<open>
  The names \<open>Object.prototype\<close> defines behave differently, in any registry: storing
  under \<open>__proto__\<close> changes nothing, and removing an inherited name that is not
  registered succeeds without a change.
\<close>

lemma addProject_proto:
  assumes "fs_stat w projectPath = Inr True"
  shows "snd (addProject w projects ''__proto__'' projectPath) = Inr projects"
  using assms by (simp add: addProject_ok set_prop_def)

lemma removeProject_inherited:
  assumes "k \<in> set object_prototype_keys" and "k \<notin> fst ` set projects"
  shows "removeProject projects k = Inr projects"
proof -
  from assms(2) have "map_of projects k = None" by (simp add: map_of_eq_None_iff)
  with assms show ?thesis by (simp add: removeProject_def get_prop_def delete_prop_def)
qed

text \<open>
  Claim C3: for every name and every path \<open>p\<close> that refers to an existing directory,
  insert succeeds and a subsequent resolve returns the absolute form of \<open>p\<close>. The code
  does not for the name \<open>__proto__\<close>: the assignment \<open>projects[name] = ...\<close> reaches the
  inherited setter, which ignores a string, so the registry stays as it was and
  resolving the name returns the prototype object. (For every other name the claim
  holds: \<open>addProject_then_getProjectPath\<close>.)
\<close>

theorem addProject_proto_not_stored:
  "addProject sample_world [] ''__proto__'' ''/repo/lib'' = ([FsStat ''/repo/lib''], Inr [])
   \<and> getProjectPath [] ''__proto__'' = Inr (Inherited ''__proto__'')"
  by (simp add: addProject_def io_bind_def io_call_def io_return_def sample_world_def
      set_prop_def getProjectPath_def get_prop_def object_prototype_keys_def)

text \<open>
  Claim C4: remove on an absent name always fails with ProjectNotFound and leaves the
  registry unchanged; remove on a present name succeeds, and a subsequent resolve on
  that name fails with ProjectNotFound. The code does not for a name that
  \<open>Object.prototype\<close> defines: removing the unregistered \<open>toString\<close> succeeds silently,
  and after removing a registered \<open>toString\<close> resolving it returns the inherited
  function. (For every other name the claim holds: \<open>removeProject_absent\<close>,
  \<open>removeProject_present\<close>.)
\<close>

theorem removeProject_inherited_name:
  "removeProject [] ''toString'' = Inr []
   \<and> removeProject [(''toString'', ''/repo/lib'')] ''toString'' = Inr []
   \<and> getProjectPath [] ''toString'' = Inr (Inherited ''toString'')"
  by (simp add: removeProject_def get_prop_def object_prototype_keys_def delete_prop_def
      getProjectPath_def)

text \<open>
  Claim C8: inserting a name twice with two different valid directory paths raises no
  uniqueness error and leaves only the second path resolvable; the same
  last-entry-wins rule holds for duplicate names in the link file. The code does not
  for the name \<open>__proto__\<close>: neither insertion is stored, and resolving the name returns
  the prototype object, not the second path. (For every other name the claim holds:
  \<open>addProject_twice_last_wins\<close>, and \<open>load_entries_last_wins\<close> for the link file.)
\<close>

theorem addProject_twice_proto:
  "addProject sample_world [] ''__proto__'' ''/repo/lib'' = ([FsStat ''/repo/lib''], Inr [])
   \<and> addProject sample_world [] ''__proto__'' ''/repo/lib2'' = ([FsStat ''/repo/lib2''], Inr [])
   \<and> getProjectPath [] ''__proto__'' \<noteq> Inr (Str ''/repo/lib2'')"
  by (simp add: addProject_def io_bind_def io_call_def io_return_def sample_world_def
      set_prop_def getProjectPath_def get_prop_def object_prototype_keys_def)

section \<open>Properties of the tool handlers\<close>

lemma io_bind_throw: "io_bind ([], Inl e) f = ([], Inl e)"
  by (simp add: io_bind_def)

lemma io_rethrow_throw:
  "io_rethrow pre ([], Inl e) = ([], Inl (Error (pre @ error_message e)))"
  by (simp add: io_rethrow_def)

lemma io_bind_pure_Inr: "io_bind (io_pure (Inr x)) f = f x"
  by (simp add: io_bind_def io_pure_def split: prod.splits)

lemma io_bind_pure_Inl: "io_bind (io_pure (Inl e)) f = ([], Inl e)"
  by (simp add: io_bind_def io_pure_def)

lemma io_bind_call_Inr:
  "io_bind (io_call ev (Inr x)) f = (ev # fst (f x), snd (f x))"
  by (simp add: io_bind_def io_call_def split: prod.splits)

lemma io_bind_call_Inl: "io_bind (io_call ev (Inl e)) f = ([ev], Inl e)"
  by (simp add: io_bind_def io_call_def)

lemma io_bind_return: "io_bind (io_return x) f = f x"
  by (simp add: io_bind_def io_return_def split: prod.splits)

lemma fst_io_rethrow: "fst (io_rethrow pre m) = fst m"
  by (simp add: io_rethrow_def split: prod.splits sum.splits)

lemma snd_io_rethrow_Inr: "snd m = Inr x \<Longrightarrow> snd (io_rethrow pre m) = Inr x"
  by (cases m) (simp add: io_rethrow_def)

lemma fst_io_bind: "\<exists>t. fst (io_bind m f) = fst m @ t"
  by (cases m) (auto simp: io_bind_def split: sum.splits prod.splits)

lemma fst_io_bind_call: "\<exists>t. fst (io_bind (io_call ev r) f) = ev # t"
  using fst_io_bind[of "io_call ev r" f] by (simp add: io_call_def)

lemma io_pure_getProjectPath_unknown:
  assumes "project \<notin> fst ` set projects" and "project \<notin> set object_prototype_keys"
  shows "io_pure (getProjectPath projects project) =
           ([], Inl (Error (unknown_project_message projects project)))"
  using assms by (simp add: getProjectPath_unknown io_pure_def)

lemma getGitInstance_unknown:
  assumes "project \<notin> fst ` set projects" and "project \<notin> set object_prototype_keys"
  shows "getGitInstance w projects project =
           ([], Inl (Error (unknown_project_message projects project)))"
  unfolding getGitInstance_def
  by (simp only: io_pure_getProjectPath_unknown[OF assms] io_bind_throw)

text \<open>
  Resolution comes first: for a project name that is neither registered nor a
  property of \<open>Object.prototype\<close>, each of the nine tools that take a project fails with
  the \<open>Unknown project\<close> message (behind the tool's prefix, for the git tools) and its
  trace of collaborator calls is empty.
\<close>

lemma project_tools_unknown:
  assumes "project \<notin> fst ` set projects" and "project \<notin> set object_prototype_keys"
  shows "listFiles w projects project dir =
           ([], Inl (Error (unknown_project_message projects project)))"
    and "readFile w projects project file =
           ([], Inl (Error (unknown_project_message projects project)))"
    and "getCommitHistory w projects project branch maxCount skip author since until =
           ([], Inl (Error (''Failed to get commit history: ''
                            @ unknown_project_message projects project)))"
    and "searchCommits w projects project query searchInDiff maxCount author =
           ([], Inl (Error (''Failed to search commits: ''
                            @ unknown_project_message projects project)))"
    and "getCommitDetails w projects project commitHash =
           ([], Inl (Error (''Failed to get commit details: ''
                            @ unknown_project_message projects project)))"
    and "getFileHistory w projects project file maxCount =
           ([], Inl (Error (''Failed to get file history: ''
                            @ unknown_project_message projects project)))"
    and "gitBlame w projects project file startLine endLine =
           ([], Inl (Error (''Failed to get git blame: ''
                            @ unknown_project_message projects project)))"
    and "getRepositoryInfo w projects project =
           ([], Inl (Error (''Failed to get repository info: ''
                            @ unknown_project_message projects project)))"
    and "compareBranches w projects project baseBranch compareBranch =
           ([], Inl (Error (''Failed to compare branches: ''
                            @ unknown_project_message projects project)))"
  unfolding listFiles_def readFile_def getCommitHistory_def searchCommits_def
      getCommitDetails_def getFileHistory_def gitBlame_def getRepositoryInfo_def
      compareBranches_def Let_def
  by (simp_all only: getGitInstance_unknown[OF assms]
      io_pure_getProjectPath_unknown[OF assms] io_bind_throw io_rethrow_throw
      error_message.simps)

lemma getGitInstance_trace:
  assumes "getProjectPath projects project = Inr root"
  shows "\<exists>t. fst (getGitInstance w projects project) = SimpleGit root # t"
  unfolding getGitInstance_def using assms
  by (simp add: io_bind_pure_Inr fst_io_bind_call)

lemma git_tool_trace:
  assumes "getProjectPath projects project = Inr root"
  shows "\<exists>t. fst (io_rethrow pre (io_bind (getGitInstance w projects project) f))
             = SimpleGit root # t"
proof -
  obtain t where t: "fst (getGitInstance w projects project) = SimpleGit root # t"
    using getGitInstance_trace[OF assms] by blast
  obtain t' where t': "fst (io_bind (getGitInstance w projects project) f)
      = fst (getGitInstance w projects project) @ t'"
    using fst_io_bind by blast
  show ?thesis by (simp add: fst_io_rethrow t t')
qed

lemma readFile_inherited_name:
  "readFile w [] ''toString'' file = ([], Inl invalid_arg_type)"
  unfolding readFile_def
  by (simp add: toString_inherited io_bind_pure_Inr io_bind_pure_Inl js_path_join_def)

lemma getCommitHistory_inherited_name:
  "\<exists>t. fst (getCommitHistory w [] ''toString'' branch maxCount skip author since until)
          = SimpleGit (Inherited ''toString'') # t"
  unfolding getCommitHistory_def Let_def
  by (rule git_tool_trace[OF toString_inherited])

text \<open>
  Claim C9: for every tool that takes a project name and every registry in which the
  name is absent, the invocation fails with ProjectNotFound and no filesystem or
  version-control call is attempted. The code does not for a name that
  \<open>Object.prototype\<close> defines: with the unregistered \<open>toString\<close>, \<open>readFile\<close> fails with
  the TypeError of \<open>path.join\<close> instead of ProjectNotFound, and \<open>getCommitHistory\<close>
  hands the inherited function to the git client, so a collaborator call is made.
  (For every other unregistered name the claim holds: \<open>project_tools_unknown\<close>.)
\<close>

theorem project_tools_inherited_name:
  "readFile w [] ''toString'' file = ([], Inl invalid_arg_type)
   \<and> (\<exists>t. fst (getCommitHistory w [] ''toString'' branch maxCount skip author since until)
            = SimpleGit (Inherited ''toString'') # t)"
  using readFile_inherited_name getCommitHistory_inherited_name by blast

section \<open>Properties of the loader\<close>

lemma map_of_set_prop_same:
  "k \<noteq> ''__proto__'' \<Longrightarrow> map_of (set_prop projects k v) k = Some v"
  by (simp add: set_prop_def update_conv')

lemma map_of_set_prop_other:
  "k' \<noteq> k \<Longrightarrow> map_of (set_prop projects k' v) k = map_of projects k"
  by (simp add: set_prop_def update_conv')

lemma load_entries_keeps_current:
  assumes "b \<noteq> ''__proto__''"
    and "map_of projects b = Some p0"
    and "p0 = cwd \<or> LinkedProject b p0 \<in> set log"
  shows "\<exists>p. map_of (fst (fst (load_entries w cwd es (projects, log)))) b = Some p
           \<and> (p = cwd \<or> LinkedProject b p \<in> set (snd (fst (load_entries w cwd es (projects, log)))))"
  using assms(2,3)
proof (induction es arbitrary: projects log p0)
  case Nil
  then show ?case by simp
next
  case (Cons e es)
  show ?case
  proof (cases "load_entry w cwd e")
    case (Inl err)
    with Cons.prems show ?thesis by simp
  next
    case (Inr r)
    show ?thesis
    proof (cases r)
      case None
      with Inr Cons.IH[OF Cons.prems] show ?thesis by simp
    next
      case (Some kv)
      obtain k rp where kv: "kv = (k, rp)" by (cases kv)
      show ?thesis
      proof (cases "k = b")
        case True
        have 1: "map_of (set_prop projects k rp) b = Some rp"
          using True assms(1) by (simp add: map_of_set_prop_same)
        have 2: "rp = cwd \<or> LinkedProject b rp \<in> set (log @ [LinkedProject k rp])"
          using True by simp
        from Cons.IH[OF 1 2] Inr Some kv show ?thesis by simp
      next
        case False
        have 1: "map_of (set_prop projects k rp) b = Some p0"
          using False Cons.prems(1) by (simp add: map_of_set_prop_other)
        have 2: "p0 = cwd \<or> LinkedProject b p0 \<in> set (log @ [LinkedProject k rp])"
          using Cons.prems(2) by auto
        from Cons.IH[OF 1 2] Inr Some kv show ?thesis by simp
      qed
    qed
  qed
qed

lemma load_entries_no_rebinding:
  assumes "\<forall>x\<in>set post. \<forall>q. load_entry w cwd x \<noteq> Inr (Some (k, q))"
  shows "map_of (fst (fst (load_entries w cwd post (projects, log)))) k = map_of projects k"
  using assms
proof (induction post arbitrary: projects log)
  case Nil
  then show ?case by simp
next
  case (Cons e es)
  from Cons.prems have rest: "\<forall>x\<in>set es. \<forall>q. load_entry w cwd x \<noteq> Inr (Some (k, q))"
    and this_one: "\<forall>q. load_entry w cwd e \<noteq> Inr (Some (k, q))" by simp_all
  show ?case
  proof (cases "load_entry w cwd e")
    case (Inl err)
    then show ?thesis by simp
  next
    case (Inr r)
    show ?thesis
    proof (cases r)
      case None
      with Inr Cons.IH[OF rest] show ?thesis by simp
    next
      case (Some kv)
      obtain k' rp where kv: "kv = (k', rp)" by (cases kv)
      with Inr Some this_one have "k' \<noteq> k" by auto
      then have "map_of (set_prop projects k' rp) k = map_of projects k"
        by (rule map_of_set_prop_other)
      with Cons.IH[OF rest, of "set_prop projects k' rp" "log @ [LinkedProject k' rp]"] Inr Some kv
      show ?thesis by simp
    qed
  qed
qed

lemma load_entries_logs_kept:
  "set log \<subseteq> set (snd (fst (load_entries w cwd es (projects, log))))"
proof (induction es arbitrary: projects log)
  case Nil
  then show ?case by simp
next
  case (Cons e es)
  show ?case
  proof (cases "load_entry w cwd e")
    case (Inl err)
    then show ?thesis by simp
  next
    case (Inr r)
    show ?thesis
    proof (cases r)
      case None
      with Inr Cons.IH show ?thesis by simp
    next
      case (Some kv)
      obtain k' rp where kv: "kv = (k', rp)" by (cases kv)
      from Cons.IH[of "log @ [LinkedProject k' rp]" "set_prop projects k' rp"] Inr Some kv
      show ?thesis by auto
    qed
  qed
qed

lemma load_entries_last_wins:
  assumes "k \<noteq> ''__proto__''"
    and "\<forall>x\<in>set pre. \<exists>r. load_entry w cwd x = Inr r"
    and "load_entry w cwd e = Inr (Some (k, rp))"
    and "\<forall>x\<in>set post. \<forall>q. load_entry w cwd x \<noteq> Inr (Some (k, q))"
  shows "map_of (fst (fst (load_entries w cwd (pre @ e # post) (projects, log)))) k = Some rp
       \<and> LinkedProject k rp
           \<in> set (snd (fst (load_entries w cwd (pre @ e # post) (projects, log))))"
  using assms(2)
proof (induction pre arbitrary: projects log)
  case Nil
  have 1: "map_of (fst (fst (load_entries w cwd post
              (set_prop projects k rp, log @ [LinkedProject k rp])))) k = Some rp"
    using load_entries_no_rebinding[OF assms(4)] assms(1) by (simp add: map_of_set_prop_same)
  have 2: "LinkedProject k rp \<in> set (snd (fst (load_entries w cwd post
              (set_prop projects k rp, log @ [LinkedProject k rp]))))"
    using load_entries_logs_kept[of "log @ [LinkedProject k rp]" w cwd post "set_prop projects k rp"]
    by auto
  from 1 2 assms(3) show ?case by simp
next
  case (Cons x xs)
  from Cons.prems obtain r where r: "load_entry w cwd x = Inr r" by auto
  from Cons.prems have xs: "\<forall>x\<in>set xs. \<exists>r. load_entry w cwd x = Inr r" by simp
  show ?case
  proof (cases r)
    case None
    with r Cons.IH[OF xs] show ?thesis by simp
  next
    case (Some kv)
    obtain k' rp' where "kv = (k', rp')" by (cases kv)
    with r Some Cons.IH[OF xs] show ?thesis by simp
  qed
qed

lemma get_prop_map_of: "map_of projects k = Some p \<Longrightarrow> get_prop projects k = Str p"
  by (simp add: get_prop_def)

lemma load_config_read_error:
  "fs_readFile w (path_join w [cwd, ''.workspace-bridge.json'']) = Inl e \<Longrightarrow>
     load_config w cwd projects = ((projects, []), Some e)"
  by (simp add: load_config_def)

lemma load_config_parse_error:
  "fs_readFile w (path_join w [cwd, ''.workspace-bridge.json'']) = Inr content \<Longrightarrow>
   json_parse w content = Inl m \<Longrightarrow>
     load_config w cwd projects = ((projects, []), Some (SyntaxError m))"
  by (simp add: load_config_def)

lemma load_config_entries:
  "fs_readFile w (path_join w [cwd, ''.workspace-bridge.json'']) = Inr content \<Longrightarrow>
   json_parse w content = Inr config \<Longrightarrow>
   json_member config ''projects'' = Inr (Some (JArr es)) \<Longrightarrow>
     load_config w cwd projects = load_entries w cwd es (projects, [])"
  by (simp add: load_config_def)

lemma load_config_cases:
  "fst (load_config w cwd projects) = (projects, [])
   \<or> (\<exists>es. load_config w cwd projects = load_entries w cwd es (projects, []))"
  by (auto simp: load_config_def split: sum.splits option.splits json.splits)

lemma loadProjects_fields:
  "loaded_projects (loadProjects w cwd)
     = fst (fst (load_config w cwd (set_prop [] (path_basename w cwd) cwd)))"
  "loaded_currentProjectName (loadProjects w cwd) = path_basename w cwd"
  "set (snd (fst (load_config w cwd (set_prop [] (path_basename w cwd) cwd))))
     \<subseteq> set (loaded_console (loadProjects w cwd))"
  by (auto simp: loadProjects_def Let_def split: prod.splits option.splits)

lemma loadProjects_current:
  assumes b: "path_basename w cwd \<noteq> ''__proto__''"
  shows "\<exists>p. get_prop (loaded_projects (loadProjects w cwd)) (path_basename w cwd) = Str p
          \<and> (p = cwd \<or> LinkedProject (path_basename w cwd) p
                          \<in> set (loaded_console (loadProjects w cwd)))"
proof -
  let ?b = "path_basename w cwd"
  let ?p0 = "set_prop [] ?b cwd"
  have init: "map_of ?p0 ?b = Some cwd" using b by (simp add: map_of_set_prop_same)
  have "\<exists>p. map_of (fst (fst (load_config w cwd ?p0))) ?b = Some p
          \<and> (p = cwd \<or> LinkedProject ?b p \<in> set (snd (fst (load_config w cwd ?p0))))"
  proof -
    from load_config_cases[of w cwd ?p0] show ?thesis
    proof
      assume "fst (load_config w cwd ?p0) = (?p0, [])"
      with init show ?thesis by simp
    next
      assume "\<exists>es. load_config w cwd ?p0 = load_entries w cwd es (?p0, [])"
      then obtain es where es: "load_config w cwd ?p0 = load_entries w cwd es (?p0, [])" by blast
      have "cwd = cwd \<or> LinkedProject ?b cwd \<in> set []" by simp
      from load_entries_keeps_current[OF b init this, of w es] es show ?thesis by simp
    qed
  qed
  then obtain p where p: "map_of (fst (fst (load_config w cwd ?p0))) ?b = Some p"
    and q: "p = cwd \<or> LinkedProject ?b p \<in> set (snd (fst (load_config w cwd ?p0)))" by blast
  from p have "get_prop (loaded_projects (loadProjects w cwd)) ?b = Str p"
    by (simp add: loadProjects_fields(1) get_prop_map_of)
  moreover from q loadProjects_fields(3)[of w cwd]
  have "p = cwd \<or> LinkedProject ?b p \<in> set (loaded_console (loadProjects w cwd))" by blast
  ultimately show ?thesis by blast
qed

lemma loadProjects_read_error:
  assumes "fs_readFile w (path_join w [cwd, ''.workspace-bridge.json'']) = Inl e"
  shows "loadProjects w cwd =
     \<lparr>loaded_projects = set_prop [] (path_basename w cwd) cwd,
      loaded_currentProjectName = path_basename w cwd,
      loaded_console = (if error_code e = Some ''ENOENT'' then [] else [Warning (error_message e)])\<rparr>"
  using assms by (simp add: loadProjects_def Let_def load_config_read_error)

lemma loadProjects_parse_error:
  assumes "fs_readFile w (path_join w [cwd, ''.workspace-bridge.json'']) = Inr content"
    and "json_parse w content = Inl m"
  shows "loadProjects w cwd =
     \<lparr>loaded_projects = set_prop [] (path_basename w cwd) cwd,
      loaded_currentProjectName = path_basename w cwd,
      loaded_console = [Warning m]\<rparr>"
  using assms by (simp add: loadProjects_def Let_def load_config_parse_error)

lemma load_entry_well_formed:
  assumes "json_member e ''name'' = Inr (Some (JStr b))" and "b \<noteq> []"
    and "json_member e ''path'' = Inr (Some (JStr p))" and "p \<noteq> []"
  shows "load_entry w cwd e = Inr (Some (b, path_resolve w [cwd, p]))"
  using assms by (simp add: load_entry_def)

lemma sample_load_entry:
  "load_entry (config_world c) ''/repo/app'' (link_entry ''lib'' ''/repo/lib'') = Inr (Some (''lib'', ''/repo/lib''))"
  "load_entry (config_world c) ''/repo/app'' JNull \<noteq> Inr (Some (''app'', q))"
  by (simp_all add: load_entry_def link_entry_def config_world_def sample_world_def sample_resolve_def)

lemma last_path_of_Nil: "last_path_of b [] = None"
  by (simp add: last_path_of_def)

lemma last_path_of_Cons:
  "last_path_of b (kv # kvs) =
     (case last_path_of b kvs of
        Some p \<Rightarrow> Some p
      | None \<Rightarrow> if fst kv = b then Some (snd kv) else None)"
  by (auto simp: last_path_of_def split: list.splits)

lemma load_entries_bindings:
  assumes "b \<noteq> ''__proto__''"
  shows "map_of (fst (fst (load_entries w cwd es (projects, log)))) b
           = (case last_path_of b (loaded_bindings w cwd es) of
                None \<Rightarrow> map_of projects b
              | Some p \<Rightarrow> Some p)
       \<and> snd (fst (load_entries w cwd es (projects, log)))
           = log @ map (\<lambda>kv. LinkedProject (fst kv) (snd kv)) (loaded_bindings w cwd es)"
proof (induction es arbitrary: projects log)
  case Nil
  then show ?case by (simp add: last_path_of_Nil)
next
  case (Cons e es)
  show ?case
  proof (cases "load_entry w cwd e")
    case (Inl err)
    then show ?thesis by (simp add: last_path_of_Nil)
  next
    case (Inr r)
    show ?thesis
    proof (cases r)
      case None
      with Inr Cons.IH[of projects log] show ?thesis by simp
    next
      case (Some kv)
      obtain k rp where kv: "kv = (k, rp)" by (cases kv)
      have m: "map_of (set_prop projects k rp) b = (if k = b then Some rp else map_of projects b)"
        using assms by (simp add: map_of_set_prop_same map_of_set_prop_other)
      from Cons.IH[of "set_prop projects k rp" "log @ [LinkedProject k rp]"] Inr Some kv m
      show ?thesis by (auto simp: last_path_of_Cons split: option.splits)
    qed
  qed
qed

lemma load_config_config_entries:
  "fst (load_config w cwd projects) = fst (load_entries w cwd (config_entries w cwd) (projects, []))"
  by (auto simp: load_config_def config_entries_def split: sum.splits option.splits json.splits)

lemma loadProjects_registry:
  "loaded_projects (loadProjects w cwd)
     = fst (fst (load_entries w cwd (config_entries w cwd) (set_prop [] (path_basename w cwd) cwd, [])))"
  by (simp add: loadProjects_fields(1) load_config_config_entries)

lemma loadProjects_console:
  "\<exists>warnings. loaded_console (loadProjects w cwd)
     = snd (fst (load_entries w cwd (config_entries w cwd) (set_prop [] (path_basename w cwd) cwd, [])))
       @ warnings \<and> (\<forall>x\<in>set warnings. \<exists>m. x = Warning m)"
proof -
  have "fst (load_config w cwd (set_prop [] (path_basename w cwd) cwd))
      = fst (load_entries w cwd (config_entries w cwd) (set_prop [] (path_basename w cwd) cwd, []))"
    by (rule load_config_config_entries)
  then show ?thesis
    by (cases "load_config w cwd (set_prop [] (path_basename w cwd) cwd)")
       (auto simp: loadProjects_def Let_def split: option.splits prod.splits)
qed

text \<open>
  Claim C5, as the code has it: for every current-project directory whose base name is
  not \<open>__proto__\<close>, whatever the link file is (absent, unreadable, malformed JSON, of
  the wrong shape or valid), \<open>loadProjects\<close> returns (every operation that can throw
  sits in its \<open>try\<close> block, whose handler never rethrows), the current project's name
  is the directory's base name, and the registry has an entry under that name: the
  resolved path of the last link-file entry of that name that the loop stored, and
  the directory's own path when it stored none. The console shows exactly the stored
  entries as linked, in order, followed by warnings only; a well-formed entry
  (non-empty strings \<open>name\<close> and \<open>path\<close>) is stored under its name with its path
  resolved against the directory. A read failure leaves the registry with the current
  project only and is logged unless its code is \<open>ENOENT\<close>; a parse failure leaves the
  registry with the current project only and is logged; and whatever else is thrown
  inside the \<open>try\<close> block is logged too, the registry keeping what the loop had stored
  before.
\<close>

theorem loadProjects_registers_current_project:
  assumes b: "path_basename w cwd \<noteq> ''__proto__''"
  shows "loaded_currentProjectName (loadProjects w cwd) = path_basename w cwd
     \<and> get_prop (loaded_projects (loadProjects w cwd)) (path_basename w cwd)
         = Str (case last_path_of (path_basename w cwd)
                       (loaded_bindings w cwd (config_entries w cwd)) of
                  None \<Rightarrow> cwd
                | Some p \<Rightarrow> p)
     \<and> (\<exists>warnings.
            loaded_console (loadProjects w cwd)
              = map (\<lambda>kv. LinkedProject (fst kv) (snd kv))
                  (loaded_bindings w cwd (config_entries w cwd)) @ warnings
            \<and> (\<forall>x\<in>set warnings. \<exists>m. x = Warning m))
     \<and> (\<forall>e n p. json_member e ''name'' = Inr (Some (JStr n)) \<and> n \<noteq> []
            \<and> json_member e ''path'' = Inr (Some (JStr p)) \<and> p \<noteq> [] \<longrightarrow>
            load_entry w cwd e = Inr (Some (n, path_resolve w [cwd, p])))
     \<and> (\<forall>e. fs_readFile w (path_join w [cwd, ''.workspace-bridge.json'']) = Inl e \<longrightarrow>
            loaded_projects (loadProjects w cwd) = [(path_basename w cwd, cwd)]
            \<and> loaded_console (loadProjects w cwd)
                = (if error_code e = Some ''ENOENT'' then [] else [Warning (error_message e)]))
     \<and> (\<forall>content m. fs_readFile w (path_join w [cwd, ''.workspace-bridge.json'']) = Inr content
            \<and> json_parse w content = Inl m \<longrightarrow>
            loaded_projects (loadProjects w cwd) = [(path_basename w cwd, cwd)]
            \<and> loaded_console (loadProjects w cwd) = [Warning m])
     \<and> (\<forall>st e. load_config w cwd (set_prop [] (path_basename w cwd) cwd) = (st, Some e) \<longrightarrow>
            loaded_projects (loadProjects w cwd) = fst st
            \<and> loaded_console (loadProjects w cwd)
                = snd st @ (if error_code e = Some ''ENOENT'' then []
                            else [Warning (error_message e)]))"
proof -
  let ?b = "path_basename w cwd"
  let ?p0 = "set_prop [] ?b cwd"
  let ?bs = "loaded_bindings w cwd (config_entries w cwd)"
  have init: "?p0 = [(?b, cwd)]"
    using b by (simp add: set_prop_def)
  have m0: "map_of ?p0 ?b = Some cwd" by (simp add: init)
  from load_entries_bindings[OF b, of w cwd "config_entries w cwd" ?p0 "[]"]
  have reg: "map_of (loaded_projects (loadProjects w cwd)) ?b
        = (case last_path_of ?b ?bs of None \<Rightarrow> map_of ?p0 ?b | Some p \<Rightarrow> Some p)"
    and con: "snd (fst (load_entries w cwd (config_entries w cwd) (?p0, [])))
        = map (\<lambda>kv. LinkedProject (fst kv) (snd kv)) ?bs"
    by (simp_all add: loadProjects_registry)
  have val: "get_prop (loaded_projects (loadProjects w cwd)) ?b
         = Str (case last_path_of ?b ?bs of None \<Rightarrow> cwd | Some p \<Rightarrow> p)"
    using reg m0 by (auto simp: get_prop_map_of split: option.splits)
  have console: "\<exists>warnings.
            loaded_console (loadProjects w cwd)
              = map (\<lambda>kv. LinkedProject (fst kv) (snd kv)) ?bs @ warnings
            \<and> (\<forall>x\<in>set warnings. \<exists>m. x = Warning m)"
    using loadProjects_console[of w cwd] con by simp
  have wf: "\<forall>e n p. json_member e ''name'' = Inr (Some (JStr n)) \<and> n \<noteq> []
            \<and> json_member e ''path'' = Inr (Some (JStr p)) \<and> p \<noteq> [] \<longrightarrow>
            load_entry w cwd e = Inr (Some (n, path_resolve w [cwd, p]))"
    by (simp add: load_entry_well_formed)
  have caught: "\<forall>st e. load_config w cwd ?p0 = (st, Some e) \<longrightarrow>
            loaded_projects (loadProjects w cwd) = fst st
            \<and> loaded_console (loadProjects w cwd)
                = snd st @ (if error_code e = Some ''ENOENT'' then []
                            else [Warning (error_message e)])"
    by (auto simp: loadProjects_def Let_def)
  have rd: "\<forall>e. fs_readFile w (path_join w [cwd, ''.workspace-bridge.json'']) = Inl e \<longrightarrow>
            loaded_projects (loadProjects w cwd) = [(?b, cwd)]
            \<and> loaded_console (loadProjects w cwd)
                = (if error_code e = Some ''ENOENT'' then [] else [Warning (error_message e)])"
    using loadProjects_read_error[of w cwd] init by simp
  have pr: "\<forall>content m. fs_readFile w (path_join w [cwd, ''.workspace-bridge.json'']) = Inr content
            \<and> json_parse w content = Inl m \<longrightarrow>
            loaded_projects (loadProjects w cwd) = [(?b, cwd)]
            \<and> loaded_console (loadProjects w cwd) = [Warning m]"
    using loadProjects_parse_error[of w cwd] init by simp
  have nm: "loaded_currentProjectName (loadProjects w cwd) = ?b"
    by (simp add: loadProjects_fields(2))
  from nm val console wf rd pr caught show ?thesis by blast
qed

theorem loadProjects_registers_current_project_witness:
  "path_basename sample_world ''/repo/app'' \<noteq> ''__proto__''
   \<and> loadProjects sample_world ''/repo/app''
       = \<lparr>loaded_projects = [(''app'', ''/repo/app'')], loaded_currentProjectName = ''app'',
          loaded_console = []\<rparr>
   \<and> loaded_console (loadProjects unreadable_world ''/repo/app'')
       = [Warning ''EACCES: permission denied, /repo/app/.workspace-bridge.json'']
   \<and> loaded_projects (loadProjects unreadable_world ''/repo/app'') = [(''app'', ''/repo/app'')]
   \<and> loaded_console (loadProjects malformed_world ''/repo/app'')
       = [Warning ''Unexpected end of JSON input'']
   \<and> loaded_projects (loadProjects malformed_world ''/repo/app'') = [(''app'', ''/repo/app'')]
   \<and> get_prop (loaded_projects (loadProjects (config_world JNull) ''/repo/app'')) ''app''
       = Str ''/repo/app''
   \<and> loaded_console (loadProjects (config_world JNull) ''/repo/app'')
       = [Warning (''Cannot read properties of null (reading '' @ quoted ''projects'' @ '')'')]
   \<and> get_prop (loaded_projects (loadProjects
         (config_world (link_file [link_entry ''lib'' ''/repo/lib'', link_entry ''app'' ''/other'']))
         ''/repo/app'')) ''app'' = Str ''/other''
   \<and> get_prop (loaded_projects (loadProjects
         (config_world (link_file [link_entry ''lib'' ''/repo/lib'']))
         ''/repo/app'')) ''app'' = Str ''/repo/app''
   \<and> loaded_console (loadProjects
         (config_world (link_file [link_entry ''lib'' ''/repo/lib'', link_entry ''app'' ''/other'']))
         ''/repo/app'')
       = [LinkedProject ''lib'' ''/repo/lib'', LinkedProject ''app'' ''/other'']"
  using loadProjects_registers_current_project[of sample_world "''/repo/app''"]
    loadProjects_registers_current_project[of unreadable_world "''/repo/app''"]
    loadProjects_registers_current_project[of malformed_world "''/repo/app''"]
    loadProjects_registers_current_project[of "config_world JNull" "''/repo/app''"]
    loadProjects_registers_current_project[of "config_world (link_file [link_entry ''lib'' ''/repo/lib'', link_entry ''app'' ''/other''])" "''/repo/app''"]
    loadProjects_registers_current_project[of "config_world (link_file [link_entry ''lib'' ''/repo/lib''])" "''/repo/app''"]
  by (simp add: loadProjects_def load_config_def Let_def sample_world_def unreadable_world_def
      malformed_world_def config_world_def enoent_def set_prop_def get_prop_def
      link_file_def link_entry_def load_entry_def sample_resolve_def)

text \<open>
  Claim C5 as stated says that the registry always maps the base name to the
  directory's own path. It does not when the link file has an entry of that name: for
  \<open>/repo/app\<close> and the entry \<open>app\<close> at \<open>/other\<close>, the name \<open>app\<close> resolves to \<open>/other\<close>.
\<close>

theorem loadProjects_link_entry_replaces_current:
  "path_basename (config_world (link_file [link_entry ''app'' ''/other''])) ''/repo/app'' = ''app''
   \<and> get_prop (loaded_projects
         (loadProjects (config_world (link_file [link_entry ''app'' ''/other''])) ''/repo/app''))
        ''app'' = Str ''/other''"
  by (simp add: loadProjects_def load_config_def config_world_def sample_world_def
      link_file_def link_entry_def load_entry_def set_prop_def sample_resolve_def Let_def get_prop_def)

text \<open>
  Claim C10, as the code has it: when the link file parses to an object whose
  \<open>projects\<close> array holds a well-formed entry (non-empty strings \<open>name\<close> and \<open>path\<close>)
  named as the current project's base name (not \<open>__proto__\<close>), no entry before it
  makes the loop throw, and no entry after it is stored under the same name, then
  \<open>loadProjects\<close> registers that entry's resolved path under the name, in place of the
  current project's own directory, and logs the entry as linked.
\<close>

theorem loadProjects_last_link_entry_wins:
  assumes base: "path_basename w cwd = b" and proto: "b \<noteq> ''__proto__''"
    and rd: "fs_readFile w (path_join w [cwd, ''.workspace-bridge.json'']) = Inr content"
    and pr: "json_parse w content = Inr config"
    and ls: "json_member config ''projects'' = Inr (Some (JArr (pre @ e # post)))"
    and nm: "json_member e ''name'' = Inr (Some (JStr b))" "b \<noteq> []"
    and pth: "json_member e ''path'' = Inr (Some (JStr p))" "p \<noteq> []"
    and before: "\<forall>x\<in>set pre. \<exists>r. load_entry w cwd x = Inr r"
    and after: "\<forall>x\<in>set post. \<forall>q. load_entry w cwd x \<noteq> Inr (Some (b, q))"
  shows "get_prop (loaded_projects (loadProjects w cwd)) b = Str (path_resolve w [cwd, p])
       \<and> LinkedProject b (path_resolve w [cwd, p]) \<in> set (loaded_console (loadProjects w cwd))"
proof -
  let ?p0 = "set_prop [] b cwd"
  have e: "load_entry w cwd e = Inr (Some (b, path_resolve w [cwd, p]))"
    using nm pth by (rule load_entry_well_formed)
  have cfg: "load_config w cwd ?p0 = load_entries w cwd (pre @ e # post) (?p0, [])"
    using rd pr ls by (rule load_config_entries)
  from load_entries_last_wins[OF proto before e after, of ?p0 "[]"] cfg
  have 1: "map_of (fst (fst (load_config w cwd ?p0))) b = Some (path_resolve w [cwd, p])"
    and 2: "LinkedProject b (path_resolve w [cwd, p]) \<in> set (snd (fst (load_config w cwd ?p0)))"
    by simp_all
  from 1 have "get_prop (loaded_projects (loadProjects w cwd)) b = Str (path_resolve w [cwd, p])"
    using base by (simp add: loadProjects_fields(1) get_prop_map_of)
  moreover from 2 loadProjects_fields(3)[of w cwd] base
  have "LinkedProject b (path_resolve w [cwd, p]) \<in> set (loaded_console (loadProjects w cwd))"
    by blast
  ultimately show ?thesis by blast
qed

theorem loadProjects_last_link_entry_wins_witness:
  "path_basename (config_world (link_file [link_entry ''lib'' ''/repo/lib'', link_entry ''app'' ''/other'', JNull])) ''/repo/app'' = ''app''
   \<and> get_prop (loaded_projects (loadProjects
          (config_world (link_file [link_entry ''lib'' ''/repo/lib'', link_entry ''app'' ''/other'', JNull]))
          ''/repo/app'')) ''app'' = Str ''/other''
   \<and> LinkedProject ''app'' ''/other'' \<in> set (loaded_console (loadProjects
          (config_world (link_file [link_entry ''lib'' ''/repo/lib'', link_entry ''app'' ''/other'', JNull]))
          ''/repo/app''))"
  using loadProjects_last_link_entry_wins[of "config_world (link_file [link_entry ''lib'' ''/repo/lib'', link_entry ''app'' ''/other'', JNull])"
      "''/repo/app''" "''app''" "''(link file)''"
      "link_file [link_entry ''lib'' ''/repo/lib'', link_entry ''app'' ''/other'', JNull]"
      "[link_entry ''lib'' ''/repo/lib'']" "link_entry ''app'' ''/other''" "[JNull]" "''/other''"]
    sample_load_entry
  by (simp add: config_world_def sample_world_def link_file_def link_entry_def sample_resolve_def)

text \<open>
  Claim C10 as stated promises this for any well-formed entry of that name. With two
  such entries the last one wins: for the entries \<open>app\<close> at \<open>/x\<close> and \<open>app\<close> at \<open>/y\<close> the
  name resolves to \<open>/y\<close>, and the path \<open>/x\<close> of the first entry is not registered.
\<close>

theorem loadProjects_duplicate_link_entries:
  "get_prop (loaded_projects
         (loadProjects (config_world (link_file [link_entry ''app'' ''/x'', link_entry ''app'' ''/y''])) ''/repo/app''))
        ''app'' = Str ''/y''"
  by (simp add: loadProjects_def load_config_def config_world_def sample_world_def
      link_file_def link_entry_def load_entry_def set_prop_def sample_resolve_def Let_def get_prop_def)

section \<open>Properties of searchCommits\<close>

lemma set_first_occurrences: "set (first_occurrences xs) = set xs"
  by (simp add: first_occurrences_def)

lemma distinct_first_occurrences: "distinct (first_occurrences xs)"
  by (simp add: first_occurrences_def)

lemma length_first_occurrences: "length (first_occurrences xs) \<le> length xs"
  by (simp add: first_occurrences_def length_remdups_leq[of "rev xs", simplified])

lemma first_occurrences_snoc:
  "first_occurrences (xs @ [x]) =
     (if x \<in> set xs then first_occurrences xs else first_occurrences xs @ [x])"
  by (simp add: first_occurrences_def)

lemma remdups_append_filter:
  "remdups (xs @ ys) = filter (\<lambda>x. x \<notin> set ys) (remdups xs) @ remdups ys"
  by (induction xs) auto

lemma first_occurrences_append:
  "first_occurrences (xs @ ys) =
     first_occurrences xs @ filter (\<lambda>y. y \<notin> set xs) (first_occurrences ys)"
proof -
  have "remdups (rev ys @ rev xs)
      = filter (\<lambda>y. y \<notin> set xs) (remdups (rev ys)) @ remdups (rev xs)"
    by (simp add: remdups_append_filter)
  then show ?thesis by (simp add: first_occurrences_def rev_filter)
qed

lemma keys_foldl_update:
  "map fst (foldl (\<lambda>m c. AList.update (f c) c m) [] xs) = first_occurrences (map f xs)"
proof (induction xs rule: rev_induct)
  case Nil
  then show ?case by (simp add: first_occurrences_def)
next
  case (snoc x xs)
  then show ?case
    by (simp add: update_keys first_occurrences_snoc set_first_occurrences)
qed

lemma map_of_foldl_update:
  "map_of (foldl (\<lambda>m c. AList.update (f c) c m) [] xs) = map_of (rev (map (\<lambda>c. (f c, c)) xs))"
proof (induction xs rule: rev_induct)
  case Nil
  then show ?case by simp
next
  case (snoc x xs)
  then show ?case by (simp add: update_conv')
qed

lemma map_of_rev_last:
  assumes "h \<in> f ` set xs"
  shows "map_of (rev (map (\<lambda>c. (f c, c)) xs)) h = Some (last (filter (\<lambda>c. f c = h) xs))"
  using assms
proof (induction xs rule: rev_induct)
  case Nil
  then show ?case by simp
next
  case (snoc x xs)
  show ?case
  proof (cases "f x = h")
    case True
    then show ?thesis by simp
  next
    case False
    with snoc.prems have "h \<in> f ` set xs" by auto
    with snoc.IH False show ?thesis by simp
  qed
qed

lemma map_snd_distinct:
  "distinct (map fst al) \<Longrightarrow> map snd al = map (\<lambda>k. the (map_of al k)) (map fst al)"
proof (induction al)
  case Nil
  then show ?case by simp
next
  case (Cons a al)
  obtain k v where a: "a = (k, v)" by (cases a)
  from Cons.prems a have k: "k \<notin> fst ` set al" and d: "distinct (map fst al)" by simp_all
  have "map (\<lambda>j. the (map_of (a # al) j)) (map fst al) = map (\<lambda>j. the (map_of al j)) (map fst al)"
  proof (rule map_cong[OF refl])
    fix j assume "j \<in> set (map fst al)"
    with k have "j \<noteq> k" by auto
    then show "the (map_of (a # al) j) = the (map_of al j)" using a by simp
  qed
  with Cons.IH[OF d] a show ?case by simp
qed

lemma unique_by_hash_eq:
  "unique_by_hash allCommits =
     map (\<lambda>h. last (filter (\<lambda>c. commit_hash c = h) allCommits))
       (first_occurrences (map commit_hash allCommits))"
proof -
  let ?F = "foldl (\<lambda>m c. AList.update (commit_hash c) c m) [] allCommits"
  have keys: "map fst ?F = first_occurrences (map commit_hash allCommits)"
    by (rule keys_foldl_update)
  then have "distinct (map fst ?F)" by (simp add: distinct_first_occurrences)
  then have "map snd ?F = map (\<lambda>k. the (map_of ?F k)) (map fst ?F)"
    by (rule map_snd_distinct)
  also have "\<dots> = map (\<lambda>k. the (map_of (rev (map (\<lambda>c. (commit_hash c, c)) allCommits)) k))
                     (first_occurrences (map commit_hash allCommits))"
    by (simp only: keys map_of_foldl_update)
  also have "\<dots> = map (\<lambda>h. last (filter (\<lambda>c. commit_hash c = h) allCommits))
                     (first_occurrences (map commit_hash allCommits))"
  proof (rule map_cong[OF refl])
    fix h assume "h \<in> set (first_occurrences (map commit_hash allCommits))"
    then have "h \<in> commit_hash ` set allCommits" by (simp add: set_first_occurrences)
    then show "the (map_of (rev (map (\<lambda>c. (commit_hash c, c)) allCommits)) h)
        = last (filter (\<lambda>c. commit_hash c = h) allCommits)"
      by (simp add: map_of_rev_last)
  qed
  finally show ?thesis by (simp add: unique_by_hash_def)
qed

lemma hashes_unique_by_hash:
  "map commit_hash (unique_by_hash allCommits) = first_occurrences (map commit_hash allCommits)"
proof -
  have "map commit_hash (unique_by_hash allCommits)
      = map (\<lambda>h. commit_hash (last (filter (\<lambda>c. commit_hash c = h) allCommits)))
          (first_occurrences (map commit_hash allCommits))"
    by (simp add: unique_by_hash_eq o_def)
  also have "\<dots> = map (\<lambda>h. h) (first_occurrences (map commit_hash allCommits))"
  proof (rule map_cong[OF refl])
    fix h assume "h \<in> set (first_occurrences (map commit_hash allCommits))"
    then have "h \<in> commit_hash ` set allCommits" by (simp add: set_first_occurrences)
    then have ne: "filter (\<lambda>c. commit_hash c = h) allCommits \<noteq> []"
      by (auto simp: filter_empty_conv)
    from last_in_set[OF ne] show "commit_hash (last (filter (\<lambda>c. commit_hash c = h) allCommits)) = h"
      by simp
  qed
  finally show ?thesis by simp
qed

lemma getGitInstance_ok:
  assumes "getProjectPath projects project = Inr root" and "simpleGit w root = Inr ()"
    and "git_checkIsRepo w root = Inr True"
  shows "getGitInstance w projects project = ([SimpleGit root, CheckIsRepo root], Inr root)"
  using assms
  by (simp add: getGitInstance_def io_bind_pure_Inr io_bind_call_Inr io_return_def)

lemma snd_io_bind_Inr: "snd m = Inr x \<Longrightarrow> snd (io_bind m f) = snd (f x)"
  by (cases m) (simp add: io_bind_def split: prod.splits)

lemma snd_io_call: "snd (io_call ev r) = r"
  by (simp add: io_call_def)

lemma snd_io_return: "snd (io_return x) = Inr x"
  by (simp add: io_return_def)

lemma searchCommits_with_diff:
  assumes reg: "getProjectPath projects project = Inr root" and git: "simpleGit w root = Inr ()"
    and repo: "git_checkIsRepo w root = Inr True"
    and m: "m = (case maxCount of None \<Rightarrow> 50 | Some n \<Rightarrow> n)"
    and log: "git_log w root (search_options query m author) = Inr log"
    and raw: "git_raw w root (diff_options query m author) = Inr diffResults"
  shows "snd (searchCommits w projects project query (Some True) maxCount author) =
           Inr (SearchResult project query True
                  (length (js_slice0 (unique_by_hash (map formatCommit log @ parse_diff_results diffResults)) m))
                  (js_slice0 (unique_by_hash (map formatCommit log @ parse_diff_results diffResults)) m))"
proof -
  have g: "snd (getGitInstance w projects project) = Inr root"
    by (simp add: getGitInstance_ok[OF reg git repo])
  show ?thesis
    unfolding searchCommits_def Let_def
    using log raw
    by (simp add: snd_io_rethrow_Inr snd_io_bind_Inr[OF g] snd_io_bind_Inr snd_io_call snd_io_return
        m[symmetric])
qed

lemma searchCommits_without_diff:
  assumes reg: "getProjectPath projects project = Inr root" and git: "simpleGit w root = Inr ()"
    and repo: "git_checkIsRepo w root = Inr True"
    and m: "m = (case maxCount of None \<Rightarrow> 50 | Some n \<Rightarrow> n)"
    and log: "git_log w root (search_options query m author) = Inr log"
    and off: "off = None \<or> off = Some False"
  shows "snd (searchCommits w projects project query off maxCount author) =
           Inr (SearchResult project query False (length log) (map formatCommit log))"
proof -
  have g: "snd (getGitInstance w projects project) = Inr root"
    by (simp add: getGitInstance_ok[OF reg git repo])
  from off show ?thesis
    unfolding searchCommits_def Let_def
    using log
    by (auto simp add: snd_io_rethrow_Inr snd_io_bind_Inr[OF g] snd_io_bind_Inr snd_io_call snd_io_return
        m[symmetric])
qed


lemma sample_registry_app:
  "getProjectPath [(''app'', ''/repo/app'')] ''app'' = Inr (Str ''/repo/app'')"
  by (simp add: getProjectPath_def get_prop_def)

lemma git_world_fields:
  "simpleGit (git_world log output) (Str ''/repo/app'') = Inr ()"
  "git_checkIsRepo (git_world log output) root = Inr True"
  "git_log (git_world log output) root options = Inr log"
  "git_raw (git_world log output) root args = Inr output"
  "fs_access (git_world log output) p = Inr ()"
  "path_join (git_world log output) = join ''/''"
  by (simp_all add: git_world_def sample_world_def)

text \<open>
  Claim C2, as the code has it: when the project resolves to a repository and both git
  calls succeed, \<open>searchCommits\<close> with \<open>searchInDiff = true\<close> and a non-negative
  \<open>maxCount\<close> returns the message-search results followed by the diff-search results,
  deduplicated by commit hash: each hash appears once, at the place of its first
  occurrence, with the \<^emph>\<open>last\<close> entry that carries it, so on a collision the
  diff-search entry replaces the message-search entry; the merged list is truncated
  to \<open>maxCount\<close> after the merge.
\<close>

theorem searchCommits_merges_by_hash:
  assumes reg: "getProjectPath projects project = Inr root" and git: "simpleGit w root = Inr ()"
    and repo: "git_checkIsRepo w root = Inr True"
    and m: "m = (case maxCount of None \<Rightarrow> 50 | Some n \<Rightarrow> n)" and nonneg: "0 \<le> m"
    and log: "git_log w root (search_options query m author) = Inr log"
    and raw: "git_raw w root (diff_options query m author) = Inr diffResults"
  shows "let allCommits = map formatCommit log @ parse_diff_results diffResults;
             merged = map (\<lambda>h. last (filter (\<lambda>c. commit_hash c = h) allCommits))
                        (first_occurrences (map commit_hash allCommits));
             commits = take (nat m) merged
         in snd (searchCommits w projects project query (Some True) maxCount author)
              = Inr (SearchResult project query True (length commits) commits)
            \<and> distinct (map commit_hash commits) \<and> int (length commits) \<le> m"
proof -
  let ?all = "map formatCommit log @ parse_diff_results diffResults"
  have slice: "js_slice0 (unique_by_hash ?all) m = take (nat m) (unique_by_hash ?all)"
    using nonneg by (simp add: js_slice0_def)
  have d: "distinct (map commit_hash (take (nat m) (unique_by_hash ?all)))"
    by (simp add: take_map[symmetric] hashes_unique_by_hash distinct_first_occurrences
        distinct_take)
  have l: "int (length (take (nat m) (unique_by_hash ?all))) \<le> m"
    using nonneg by simp
  from searchCommits_with_diff[OF reg git repo m log raw] slice d l
  show ?thesis by (simp add: Let_def unique_by_hash_eq[symmetric])
qed

theorem searchCommits_merges_by_hash_witness:
  "getProjectPath [(''app'', ''/repo/app'')] ''app'' = Inr (Str ''/repo/app'')
   \<and> (0::int) \<le> 2
   \<and> snd (searchCommits
            (git_world [sample_commit hash_a ''fix bug'', sample_commit hash_b ''fix typo'']
               sample_diff_output)
            [(''app'', ''/repo/app'')] ''app'' ''fix'' (Some True) (Some 2) None)
       = Inr (SearchResult ''app'' ''fix'' True 2
                [\<lparr>commit_hash = hash_a, commit_author = Some ''Ann'',
                  commit_email = Some ''ann@example.org'',
                  commit_date = Some ''2024-01-02 03:04:05 +0000'',
                  commit_message = ''fix bug'', commit_body = ''(found in code changes)''\<rparr>,
                 \<lparr>commit_hash = hash_b, commit_author = Some ''Ann'',
                  commit_email = Some ''ann@example.org'',
                  commit_date = Some ''2024-01-02T03:04:05+00:00'',
                  commit_message = ''fix typo'', commit_body = ''details''\<rparr>])"
  using searchCommits_merges_by_hash[where w = "git_world [sample_commit hash_a ''fix bug'', sample_commit hash_b ''fix typo''] sample_diff_output"
      and projects = "[(''app'', ''/repo/app'')]" and project = "''app''"
      and root = "Str ''/repo/app''" and m = 2 and maxCount = "Some 2" and query = "''fix''"
      and author = None
      and log = "[sample_commit hash_a ''fix bug'', sample_commit hash_b ''fix typo'']"
      and diffResults = sample_diff_output]
    sample_registry_app
  by (simp add: git_world_fields Let_def formatCommit_def sample_commit_def
      sample_diff_output_def hash_a_def hash_b_def hash_c_def parse_diff_results_def
      parse_diff_line_def trim_def js_whitespace_def nth_opt_def first_occurrences_def)

text \<open>
  Claim C2 as stated says that on a hash collision the message-search entry takes
  precedence. It does not: the commit \<open>hash_a\<close> is found by both searches, and the entry
  returned for it is the diff-search one (body \<open>(found in code changes)\<close>, date in the
  \<open>--date=iso\<close> form), not the formatted message-search entry (body \<open>details\<close>).
\<close>

theorem searchCommits_diff_entry_wins:
  "snd (searchCommits (git_world [sample_commit hash_a ''fix bug''] sample_diff_output)
          [(''app'', ''/repo/app'')] ''app'' ''fix'' (Some True) None None)
     = Inr (SearchResult ''app'' ''fix'' True 2
              [\<lparr>commit_hash = hash_a, commit_author = Some ''Ann'',
                commit_email = Some ''ann@example.org'',
                commit_date = Some ''2024-01-02 03:04:05 +0000'',
                commit_message = ''fix bug'', commit_body = ''(found in code changes)''\<rparr>,
               \<lparr>commit_hash = hash_c, commit_author = Some ''Cy'',
                commit_email = Some ''cy@example.org'',
                commit_date = Some ''2024-01-03 03:04:05 +0000'',
                commit_message = ''rename a|b'', commit_body = ''(found in code changes)''\<rparr>])
   \<and> formatCommit (sample_commit hash_a ''fix bug'')
     = \<lparr>commit_hash = hash_a, commit_author = Some ''Ann'',
        commit_email = Some ''ann@example.org'',
        commit_date = Some ''2024-01-02T03:04:05+00:00'',
        commit_message = ''fix bug'', commit_body = ''details''\<rparr>"
  by (simp add: searchCommits_def Let_def getGitInstance_def getProjectPath_def get_prop_def
      git_world_def sample_world_def io_bind_def io_pure_def io_call_def io_return_def
      io_rethrow_def search_options_def diff_options_def spread_str_def formatCommit_def
      sample_commit_def sample_diff_output_def hash_a_def hash_c_def parse_diff_results_def
      parse_diff_line_def trim_def js_whitespace_def nth_opt_def unique_by_hash_def
      js_slice0_def)

text \<open>
  Claim C7, as the code has it: for the same query and the same \<open>maxCount\<close>, the commit
  hashes returned with \<open>searchInDiff = false\<close> (or left out) are among those returned
  with \<open>searchInDiff = true\<close>, provided the message search returned at most \<open>maxCount\<close>
  commits. Both invocations see the same repository: the project resolves and both
  git calls succeed. The example that follows is a history with two message matches
  and a diff-only match.
\<close>

theorem searchCommits_message_hashes_subset:
  assumes reg: "getProjectPath projects project = Inr root" and git: "simpleGit w root = Inr ()"
    and repo: "git_checkIsRepo w root = Inr True"
    and m: "m = (case maxCount of None \<Rightarrow> 50 | Some n \<Rightarrow> n)"
    and log: "git_log w root (search_options query m author) = Inr log"
    and raw: "git_raw w root (diff_options query m author) = Inr diffResults"
    and limit: "int (length log) \<le> m"
    and off: "off = None \<or> off = Some False"
  shows "\<exists>cs cs'.
           snd (searchCommits w projects project query off maxCount author)
             = Inr (SearchResult project query False (length cs) cs)
           \<and> snd (searchCommits w projects project query (Some True) maxCount author)
             = Inr (SearchResult project query True (length cs') cs')
           \<and> commit_hash ` set cs \<subseteq> commit_hash ` set cs'"
proof -
  let ?cs = "map formatCommit log"
  let ?ds = "parse_diff_results diffResults"
  let ?U = "unique_by_hash (?cs @ ?ds)"
  let ?n = "length (first_occurrences (map commit_hash ?cs))"
  from limit have nonneg: "0 \<le> m" by simp
  have slice: "js_slice0 ?U m = take (nat m) ?U"
    using nonneg by (simp add: js_slice0_def)
  have n: "?n \<le> nat m"
    using length_first_occurrences[of "map commit_hash ?cs"] limit by simp
  have "map commit_hash ?U
      = first_occurrences (map commit_hash ?cs)
        @ filter (\<lambda>y. y \<notin> set (map commit_hash ?cs)) (first_occurrences (map commit_hash ?ds))"
    by (simp add: hashes_unique_by_hash first_occurrences_append)
  then have "take ?n (map commit_hash ?U) = first_occurrences (map commit_hash ?cs)"
    by simp
  then have "set (map commit_hash ?cs) = set (take ?n (map commit_hash ?U))"
    by (simp add: set_first_occurrences)
  also have "\<dots> \<subseteq> set (take (nat m) (map commit_hash ?U))"
    using n by (rule set_take_subset_set_take)
  also have "\<dots> = commit_hash ` set (take (nat m) ?U)"
    by (simp add: take_map)
  finally have sub: "commit_hash ` set ?cs \<subseteq> commit_hash ` set (js_slice0 ?U m)"
    by (simp add: slice image_image)
  have a: "snd (searchCommits w projects project query off maxCount author)
             = Inr (SearchResult project query False (length ?cs) ?cs)"
    using searchCommits_without_diff[OF reg git repo m log off] by simp
  have b: "snd (searchCommits w projects project query (Some True) maxCount author)
             = Inr (SearchResult project query True (length (js_slice0 ?U m)) (js_slice0 ?U m))"
    by (rule searchCommits_with_diff[OF reg git repo m log raw])
  from a b sub show ?thesis by blast
qed


theorem searchCommits_message_hashes_subset_witness:
  "getProjectPath [(''app'', ''/repo/app'')] ''app'' = Inr (Str ''/repo/app'')
   \<and> int (length [sample_commit hash_a ''fix bug'', sample_commit hash_b ''fix typo'']) \<le> 2
   \<and> hash_c \<in> commit_hash ` set (parse_diff_results sample_diff_output)
   \<and> hash_c \<notin> raw_hash ` set [sample_commit hash_a ''fix bug'', sample_commit hash_b ''fix typo'']
   \<and> (\<exists>cs cs'.
         snd (searchCommits
            (git_world [sample_commit hash_a ''fix bug'', sample_commit hash_b ''fix typo'']
               sample_diff_output)
            [(''app'', ''/repo/app'')] ''app'' ''fix'' (Some False) (Some 2) None)
           = Inr (SearchResult ''app'' ''fix'' False (length cs) cs)
         \<and> snd (searchCommits
            (git_world [sample_commit hash_a ''fix bug'', sample_commit hash_b ''fix typo'']
               sample_diff_output)
            [(''app'', ''/repo/app'')] ''app'' ''fix'' (Some True) (Some 2) None)
           = Inr (SearchResult ''app'' ''fix'' True (length cs') cs')
         \<and> commit_hash ` set cs \<subseteq> commit_hash ` set cs')"
proof -
  have diff_only: "hash_c \<in> commit_hash ` set (parse_diff_results sample_diff_output)"
    by (simp add: sample_diff_output_def hash_a_def hash_c_def parse_diff_results_def
        parse_diff_line_def trim_def js_whitespace_def nth_opt_def)
  have not_msg: "hash_c \<notin> raw_hash ` set [sample_commit hash_a ''fix bug'', sample_commit hash_b ''fix typo'']"
    by (simp add: sample_commit_def hash_a_def hash_b_def hash_c_def)
  have "\<exists>cs cs'.
         snd (searchCommits
            (git_world [sample_commit hash_a ''fix bug'', sample_commit hash_b ''fix typo'']
               sample_diff_output)
            [(''app'', ''/repo/app'')] ''app'' ''fix'' (Some False) (Some 2) None)
           = Inr (SearchResult ''app'' ''fix'' False (length cs) cs)
         \<and> snd (searchCommits
            (git_world [sample_commit hash_a ''fix bug'', sample_commit hash_b ''fix typo'']
               sample_diff_output)
            [(''app'', ''/repo/app'')] ''app'' ''fix'' (Some True) (Some 2) None)
           = Inr (SearchResult ''app'' ''fix'' True (length cs') cs')
         \<and> commit_hash ` set cs \<subseteq> commit_hash ` set cs'"
    by (rule searchCommits_message_hashes_subset[where root = "Str ''/repo/app''" and m = 2
          and log = "[sample_commit hash_a ''fix bug'', sample_commit hash_b ''fix typo'']"
          and diffResults = sample_diff_output])
      (simp_all add: sample_registry_app git_world_fields)
  with sample_registry_app diff_only not_msg show ?thesis by simp
qed

text \<open>
  Claim C7 as stated holds for every \<open>maxCount\<close>. It does not: the handler truncates
  only the merged list, never the message-search result. With two message matches
  \<open>hash_a\<close> and \<open>hash_b\<close> returned by the log, \<open>maxCount = 0\<close> gives both commits without
  the diff search and none with it, and \<open>maxCount = -2\<close> gives both without it and only
  \<open>hash_a\<close> with it: \<open>hash_b\<close> is returned with \<open>searchInDiff = false\<close> and missing with
  \<open>searchInDiff = true\<close>.
\<close>

theorem searchCommits_untruncated_message_results:
  "snd (searchCommits
          (git_world [sample_commit hash_a ''fix bug'', sample_commit hash_b ''fix typo'']
             sample_diff_output)
          [(''app'', ''/repo/app'')] ''app'' ''fix'' (Some False) (Some 0) None)
     = Inr (SearchResult ''app'' ''fix'' False 2
              [formatCommit (sample_commit hash_a ''fix bug''),
               formatCommit (sample_commit hash_b ''fix typo'')])
   \<and> snd (searchCommits
          (git_world [sample_commit hash_a ''fix bug'', sample_commit hash_b ''fix typo'']
             sample_diff_output)
          [(''app'', ''/repo/app'')] ''app'' ''fix'' (Some True) (Some 0) None)
     = Inr (SearchResult ''app'' ''fix'' True 0 [])
   \<and> snd (searchCommits
          (git_world [sample_commit hash_a ''fix bug'', sample_commit hash_b ''fix typo'']
             sample_diff_output)
          [(''app'', ''/repo/app'')] ''app'' ''fix'' (Some False) (Some (- 2)) None)
     = Inr (SearchResult ''app'' ''fix'' False 2
              [formatCommit (sample_commit hash_a ''fix bug''),
               formatCommit (sample_commit hash_b ''fix typo'')])
   \<and> snd (searchCommits
          (git_world [sample_commit hash_a ''fix bug'', sample_commit hash_b ''fix typo'']
             sample_diff_output)
          [(''app'', ''/repo/app'')] ''app'' ''fix'' (Some True) (Some (- 2)) None)
     = Inr (SearchResult ''app'' ''fix'' True 1
              [\<lparr>commit_hash = hash_a, commit_author = Some ''Ann'',
                commit_email = Some ''ann@example.org'',
                commit_date = Some ''2024-01-02 03:04:05 +0000'',
                commit_message = ''fix bug'', commit_body = ''(found in code changes)''\<rparr>])
   \<and> commit_hash (formatCommit (sample_commit hash_b ''fix typo'')) = hash_b
   \<and> hash_b \<noteq> hash_a"
  by (simp add: searchCommits_def Let_def getGitInstance_def getProjectPath_def get_prop_def
      git_world_def sample_world_def io_bind_def io_pure_def io_call_def io_return_def
      io_rethrow_def search_options_def diff_options_def spread_str_def formatCommit_def
      sample_commit_def sample_diff_output_def hash_a_def hash_b_def hash_c_def
      parse_diff_results_def parse_diff_line_def trim_def js_whitespace_def nth_opt_def
      unique_by_hash_def js_slice0_def)

section \<open>Properties of gitBlame\<close>

lemma split_on_line:
  "c \<notin> set l \<Longrightarrow> split_on c (l @ c # rest) = l # split_on c rest"
  by (induction l) auto

lemma split_on_lines:
  "\<forall>l\<in>set ls. c \<notin> set l \<Longrightarrow>
     split_on c (concat (map (\<lambda>line. line @ [c]) ls)) = ls @ [[]]"
  by (induction ls) (simp_all add: split_on_line)

lemma is_commit_line_Nil: "\<not> is_commit_line []"
  by (simp add: is_commit_line_def)

lemma last_value_Nil: "last_value key [] = None"
  by (simp add: last_value_def)

lemma last_value_Cons:
  "last_value key (m # ms) =
     (case last_value key ms of
        Some v \<Rightarrow> Some v
      | None \<Rightarrow> if prefix key m then Some (drop (length key) m) else None)"
  by (auto simp: last_value_def split: list.splits)


lemma prefix_exclusive:
  "prefix ''author '' m \<Longrightarrow> \<not> prefix ''author-time '' m"
  "prefix ''author '' m \<Longrightarrow> \<not> prefix ''summary '' m"
  "prefix ''author-time '' m \<Longrightarrow> \<not> prefix ''summary '' m"
  by (auto simp: prefix_def)

lemma tab_not_commit_line: "prefix [CHR 0x09] l \<Longrightarrow> \<not> is_commit_line l"
  by (auto simp: prefix_def is_commit_line_def is_hex_lower_def)

lemma tab_not_keyword:
  "prefix [CHR 0x09] l \<Longrightarrow> \<not> prefix ''author '' l"
  "prefix [CHR 0x09] l \<Longrightarrow> \<not> prefix ''author-time '' l"
  "prefix [CHR 0x09] l \<Longrightarrow> \<not> prefix ''summary '' l"
  by (auto simp: prefix_def)

lemma blame_step_header:
  "is_commit_line h \<Longrightarrow> blame_step w (acc, cur) h = Inr (acc, Some (start_record h))"
  by (simp add: blame_step_def start_record_def Let_def)

lemma date_iso_valid:
  "valid_time v \<Longrightarrow> date_iso w (parseInt v) = Inr (time_iso w v)"
  by (auto simp: valid_time_def date_iso_def time_iso_def split: option.splits)

lemma blame_step_meta:
  assumes "wf_meta m"
  shows "blame_step w (acc, Some c) m = Inr (acc, Some (with_metas w c [m]))"
proof -
  from assms have nc: "\<not> is_commit_line m" and nt: "\<not> prefix [CHR 0x09] m"
    and vt: "prefix ''author-time '' m \<Longrightarrow> valid_time (drop 12 m)"
    by (simp_all add: wf_meta_def)
  consider (author) "prefix ''author '' m"
    | (time) "\<not> prefix ''author '' m" "prefix ''author-time '' m"
    | (summary) "\<not> prefix ''author '' m" "\<not> prefix ''author-time '' m" "prefix ''summary '' m"
    | (other) "\<not> prefix ''author '' m" "\<not> prefix ''author-time '' m" "\<not> prefix ''summary '' m"
    by blast
  then show ?thesis
  proof cases
    case author
    with nc prefix_exclusive(1,2)[OF author] show ?thesis
      by (simp add: blame_step_def with_metas_def last_value_def eval_nat_numeral)
  next
    case time
    with nc prefix_exclusive(3)[OF time(2)] date_iso_valid[OF vt[OF time(2)], of w] show ?thesis
      by (simp add: blame_step_def with_metas_def last_value_def eval_nat_numeral)
  next
    case summary
    with nc show ?thesis
      by (simp add: blame_step_def with_metas_def last_value_def eval_nat_numeral)
  next
    case other
    with nc nt show ?thesis
      by (simp add: blame_step_def with_metas_def last_value_def eval_nat_numeral)
  qed
qed

lemma with_metas_Cons: "with_metas w (with_metas w c [m]) ms = with_metas w c (m # ms)"
  by (simp add: with_metas_def last_value_Cons last_value_Nil split: option.splits)

lemma blame_loop_metas:
  "list_all wf_meta metas \<Longrightarrow>
     blame_loop w (metas @ rest) (acc, Some c) = blame_loop w rest (acc, Some (with_metas w c metas))"
proof (induction metas arbitrary: c)
  case Nil
  then show ?case by (simp add: with_metas_def last_value_Nil)
next
  case (Cons m ms)
  then have m: "wf_meta m" and ms: "list_all wf_meta ms" by simp_all
  show ?case
    using Cons.IH[OF ms, of "with_metas w c [m]"]
    by (simp add: blame_step_meta[OF m] with_metas_Cons)
qed

lemma blame_step_content:
  assumes "prefix [CHR 0x09] l"
  shows "blame_step w (acc, Some c) l = Inr (acc @ [c\<lparr>blame_content := Some (drop 1 l)\<rparr>], None)"
  using assms tab_not_commit_line[OF assms] tab_not_keyword[OF assms]
  by (simp add: blame_step_def)

lemma group_record_eq:
  "group_record w g
     = (with_metas w (start_record (group_header g)) (group_meta g))
         \<lparr>blame_content := Some (drop 1 (group_content g))\<rparr>"
  by (simp add: group_record_def with_metas_def start_record_def group_lineNum_def
      split: option.splits)

lemma blame_loop_group:
  assumes "wf_group g"
  shows "blame_loop w (group_lines g @ rest) (acc, cur)
           = blame_loop w rest (acc @ [group_record w g], None)"
proof -
  from assms have h: "is_commit_line (group_header g)" and ms: "list_all wf_meta (group_meta g)"
    and c: "prefix [CHR 0x09] (group_content g)" by (simp_all add: wf_group_def)
  have "blame_loop w (group_lines g @ rest) (acc, cur)
      = blame_loop w (group_meta g @ group_content g # rest)
          (acc, Some (start_record (group_header g)))"
    by (simp add: group_lines_def blame_step_header[OF h])
  also have "\<dots> = blame_loop w (group_content g # rest)
          (acc, Some (with_metas w (start_record (group_header g)) (group_meta g)))"
    by (rule blame_loop_metas[OF ms])
  also have "\<dots> = blame_loop w rest (acc @ [group_record w g], None)"
    by (simp add: blame_step_content[OF c] group_record_eq)
  finally show ?thesis .
qed

lemma blame_loop_groups:
  "list_all wf_group gs \<Longrightarrow>
     blame_loop w (concat (map group_lines gs) @ rest) (acc, None)
       = blame_loop w rest (acc @ map (group_record w) gs, None)"
proof (induction gs arbitrary: acc)
  case Nil
  then show ?case by simp
next
  case (Cons g gs)
  then have g: "wf_group g" and gs: "list_all wf_group gs" by simp_all
  show ?case
    using Cons.IH[OF gs, of "acc @ [group_record w g]"]
    by (simp add: blame_loop_group[OF g])
qed

lemma wf_group_no_newline:
  "wf_group g \<Longrightarrow> \<forall>l\<in>set (group_lines g). CHR 0x0A \<notin> set l"
  by (auto simp: wf_group_def group_lines_def wf_meta_def list_all_iff)

lemma parse_blame_groups:
  assumes "list_all wf_group gs"
  shows "parse_blame w (render_groups gs) = Inr (map (group_record w) gs)"
proof -
  have "\<forall>l\<in>set (concat (map group_lines gs)). CHR 0x0A \<notin> set l"
    using assms wf_group_no_newline by (auto simp: list_all_iff)
  then have "split_on (CHR 0x0A) (render_groups gs) = concat (map group_lines gs) @ [[]]"
    unfolding render_groups_def by (rule split_on_lines)
  then have "parse_blame w (render_groups gs)
      = blame_loop w (concat (map group_lines gs) @ [[]]) ([], None)"
    by (simp add: parse_blame_def)
  also have "\<dots> = blame_loop w [[]] ([] @ map (group_record w) gs, None)"
    by (rule blame_loop_groups[OF assms])
  also have "\<dots> = Inr (map (group_record w) gs)"
    by (simp add: blame_step_def is_commit_line_Nil)
  finally show ?thesis .
qed

lemma blame_args_range:
  "s \<noteq> 0 \<Longrightarrow> e \<noteq> 0 \<Longrightarrow>
     blame_args file (Some s) (Some e)
       = [''blame'', ''--line-porcelain'', ''-L'' @ show_int s @ '','' @ show_int e, file]"
  by (simp add: blame_args_def)

lemma blame_args_whole: "blame_args file None None = [''blame'', ''--line-porcelain'', file]"
  by (simp add: blame_args_def)

lemma gitBlame_result:
  assumes reg: "getProjectPath projects project = Inr (Str root)"
    and git: "simpleGit w (Str root) = Inr ()"
    and repo: "git_checkIsRepo w (Str root) = Inr True"
    and found: "fs_access w (path_join w [root, file]) = Inr ()"
    and out: "git_raw w (Str root) (blame_args file startLine endLine) = Inr blameOutput"
    and parsed: "parse_blame w blameOutput = Inr blameData"
  shows "snd (gitBlame w projects project file startLine endLine)
           = Inr (Blame project file blameData)"
proof -
  have g: "snd (getGitInstance w projects project) = Inr (Str root)"
    by (simp add: getGitInstance_ok[OF reg git repo])
  have p: "snd (io_pure (getProjectPath projects project)) = Inr (Str root)"
    by (simp add: io_pure_def reg)
  have j: "snd (io_pure (js_path_join w [Str root, Str file])) = Inr (path_join w [root, file])"
    by (simp add: io_pure_def js_path_join_def)
  have a: "snd (case io_call (FsAccess (path_join w [root, file]))
                       (fs_access w (path_join w [root, file])) of
                  (t, Inl e) \<Rightarrow>
                    (t, Inl (Error (''File '' @ quoted file @ '' not found in project ''
                                    @ quoted project)))
                | (t, Inr u) \<Rightarrow> (t, Inr u)) = Inr ()"
    by (simp add: io_call_def found)
  have r: "snd (io_call (GitRaw (Str root) (blame_args file startLine endLine))
                  (git_raw w (Str root) (blame_args file startLine endLine))) = Inr blameOutput"
    by (simp add: io_call_def out)
  have q: "snd (io_pure (parse_blame w blameOutput)) = Inr blameData"
    by (simp add: io_pure_def parsed)
  show ?thesis
    unfolding gitBlame_def Let_def
    by (simp only: snd_io_rethrow_Inr snd_io_bind_Inr[OF g] snd_io_bind_Inr[OF p]
        snd_io_bind_Inr[OF j] snd_io_bind_Inr[OF a] snd_io_bind_Inr[OF r]
        snd_io_bind_Inr[OF q] snd_io_return)
qed

lemma sample_groups_wf: "list_all wf_group sample_groups"
  by (simp add: sample_groups_def wf_group_def wf_meta_def is_commit_line_def is_hex_lower_def
      hash_a_def hash_b_def valid_time_def parseInt_def js_whitespace_def radix_digit_def
      hex_digit_value_def radix_value_def)

lemma sample_groups_numbered: "map group_lineNum sample_groups = map Some [1..2]"
  by (simp add: sample_groups_def group_lineNum_def hash_a_def hash_b_def nth_opt_def
      parseInt_def js_whitespace_def radix_digit_def hex_digit_value_def radix_value_def
      upto.simps)

lemma sample_groups_records:
  "map (group_record (git_world [] (render_groups sample_groups))) sample_groups
     = [\<lparr>blame_hash = hash_a, blame_lineNum = Some 1, blame_author = Some ''Ann'',
          blame_date = Some ''2023-11-14T22:13:20.000Z'', blame_summary = Some ''fix bug'',
          blame_content = Some ''const x = 1;''\<rparr>,
        \<lparr>blame_hash = hash_b, blame_lineNum = Some 2, blame_author = Some ''Bob'',
          blame_date = Some ''2023-11-14T22:13:20.000Z'', blame_summary = Some ''add y'',
          blame_content = Some ''const y = 2;''\<rparr>]"
  by (simp add: sample_groups_def group_record_def group_lineNum_def hash_a_def hash_b_def
      nth_opt_def parseInt_def js_whitespace_def radix_digit_def hex_digit_value_def
      radix_value_def last_value_def time_iso_def git_world_def sample_world_def)

text \<open>
  Claim C6: for every well-formed attribution stream the \<open>gitBlame\<close> parser emits
  exactly one record per source line, in source-line order: when both bounds are given
  (line numbers count from 1) the handler asks for the inclusive range
  \<open>-L start,end\<close> and, the stream holding one group for each line of that range,
  returns one record for each line of it; when neither is given it asks for the whole
  file and returns one record per line of the file. Each record is emitted when the
  tab-prefixed content line is reached, and the working record is then reset.
\<close>

theorem gitBlame_one_record_per_line:
  assumes reg: "getProjectPath projects project = Inr (Str root)"
    and git: "simpleGit w (Str root) = Inr ()"
    and repo: "git_checkIsRepo w (Str root) = Inr True"
    and found: "fs_access w (path_join w [root, fileName]) = Inr ()"
    and bounds:
      "(startLine = Some s \<and> endLine = Some e \<and> 1 \<le> s \<and> 1 \<le> e \<and> lo = s \<and> hi = e
        \<and> args = [''blame'', ''--line-porcelain'', ''-L'' @ show_int s @ '','' @ show_int e, fileName])
       \<or> (startLine = None \<and> endLine = None \<and> lo = 1
           \<and> args = [''blame'', ''--line-porcelain'', fileName])"
    and out: "git_raw w (Str root) args = Inr (render_groups gs)"
    and wf: "list_all wf_group gs"
    and numbered: "map group_lineNum gs = map Some [lo..hi]"
  shows "\<exists>blameData.
           snd (gitBlame w projects project fileName startLine endLine)
             = Inr (Blame project fileName blameData)
           \<and> blameData = map (group_record w) gs
           \<and> map blame_lineNum blameData = map Some [lo..hi]
           \<and> int (length blameData) = (if lo \<le> hi then hi - lo + 1 else 0)
           \<and> (\<forall>acc c line. prefix [CHR 0x09] line \<longrightarrow>
                  blame_step w (acc, Some c) line
                    = Inr (acc @ [c\<lparr>blame_content := Some (drop 1 line)\<rparr>], None))"
proof -
  from bounds have args: "blame_args fileName startLine endLine = args"
    by (auto simp: blame_args_range blame_args_whole)
  have res: "snd (gitBlame w projects project fileName startLine endLine)
      = Inr (Blame project fileName (map (group_record w) gs))"
    using gitBlame_result[OF reg git repo found _ parse_blame_groups[OF wf]] out args by simp
  have nums: "map blame_lineNum (map (group_record w) gs) = map Some [lo..hi]"
    using numbered by (simp add: group_record_def o_def)
  have "length (map (group_record w) gs) = length (map group_lineNum gs)" by simp
  also have "\<dots> = length [lo..hi]" by (simp only: numbered length_map)
  finally have len: "int (length (map (group_record w) gs)) = (if lo \<le> hi then hi - lo + 1 else 0)"
    by simp
  from res nums len blame_step_content show ?thesis by blast
qed

theorem gitBlame_one_record_per_line_witness:
  "getProjectPath [(''app'', ''/repo/app'')] ''app'' = Inr (Str ''/repo/app'')
   \<and> list_all wf_group sample_groups
   \<and> map group_lineNum sample_groups = map Some [1..2]
   \<and> snd (gitBlame (git_world [] (render_groups sample_groups)) [(''app'', ''/repo/app'')]
            ''app'' ''src/main.js'' (Some 1) (Some 2))
       = Inr (Blame ''app'' ''src/main.js''
           [\<lparr>blame_hash = hash_a, blame_lineNum = Some 1, blame_author = Some ''Ann'',
              blame_date = Some ''2023-11-14T22:13:20.000Z'', blame_summary = Some ''fix bug'',
              blame_content = Some ''const x = 1;''\<rparr>,
            \<lparr>blame_hash = hash_b, blame_lineNum = Some 2, blame_author = Some ''Bob'',
              blame_date = Some ''2023-11-14T22:13:20.000Z'', blame_summary = Some ''add y'',
              blame_content = Some ''const y = 2;''\<rparr>])
   \<and> snd (gitBlame (git_world [] (render_groups sample_groups)) [(''app'', ''/repo/app'')]
            ''app'' ''src/main.js'' None None)
       = Inr (Blame ''app'' ''src/main.js''
           [\<lparr>blame_hash = hash_a, blame_lineNum = Some 1, blame_author = Some ''Ann'',
              blame_date = Some ''2023-11-14T22:13:20.000Z'', blame_summary = Some ''fix bug'',
              blame_content = Some ''const x = 1;''\<rparr>,
            \<lparr>blame_hash = hash_b, blame_lineNum = Some 2, blame_author = Some ''Bob'',
              blame_date = Some ''2023-11-14T22:13:20.000Z'', blame_summary = Some ''add y'',
              blame_content = Some ''const y = 2;''\<rparr>])"
  using gitBlame_one_record_per_line[where w = "git_world [] (render_groups sample_groups)"
        and projects = "[(''app'', ''/repo/app'')]" and project = "''app''"
        and root = "''/repo/app''" and fileName = "''src/main.js''"
        and startLine = "Some 1" and endLine = "Some 2" and s = 1 and e = 2 and lo = 1 and hi = 2
        and args = "[''blame'', ''--line-porcelain'', ''-L'' @ show_int 1 @ '','' @ show_int 2, ''src/main.js'']"
        and gs = sample_groups]
    gitBlame_one_record_per_line[where w = "git_world [] (render_groups sample_groups)"
        and projects = "[(''app'', ''/repo/app'')]" and project = "''app''"
        and root = "''/repo/app''" and fileName = "''src/main.js''"
        and startLine = None and endLine = None and lo = 1 and hi = 2
        and args = "[''blame'', ''--line-porcelain'', ''src/main.js'']"
        and gs = sample_groups]
    sample_registry_app sample_groups_wf sample_groups_numbered sample_groups_records
  by (simp add: git_world_fields)

end
